theory Spec2Isabelle
  imports Main "HOL-Library.Char_ord" "HOL-Library.List_Lexorder"
begin

section \<open>The Cloudflare provider: data and local endpoint cache\<close>

text \<open>
  An endpoint is the dictionary that \<open>CloudflareProvider.create\<close> and
  \<open>CloudflareProvider.sync_endpoints\<close> build. The entries written by \<open>create\<close> carry a
  \<open>target_url\<close> key, the ones written by \<open>sync_endpoints\<close> do not, hence the option.
\<close>

record endpoint =
  name :: string
  url :: string
  target_url :: "string option"
  created_at :: string
  provider :: string

text \<open>
  The file \<open>~/.omniprox/cloudflare_endpoints.json\<close>. It is absent, or holds text that
  \<open>json.load\<close> rejects, or holds a JSON list of endpoints.
\<close>

datatype endpoints_file = Absent | Unreadable | Json "endpoint list"

text \<open>
  What a command reads and changes besides its arguments: the endpoints file, the requests
  sent to the Cloudflare API in the order they were sent, the standard input, and the
  subdomain that the provider object keeps once it has found one
  (\<open>self._worker_subdomain\<close>, a string). \<open>EnsureSubdomain\<close> stands for a call of the helper
  \<open>_ensure_subdomain\<close> and \<open>GetSubdomain\<close> for an evaluation of the property
  \<open>worker_subdomain\<close>, with the requests they send when no subdomain is kept; neither is
  unfolded here.
\<close>

datatype api_call =
    GetAccount
  | EnsureSubdomain
  | GetSubdomain
  | PutScript string
  | PostScriptSubdomain string
  | DeleteScript string
  | GetScripts

record world =
  endpoints_file :: endpoints_file
  calls :: "api_call list"
  stdin_isatty :: bool
  stdin_lines :: "string list"
  subdomain_cache :: "string option"

text \<open>
  The exceptions (subclasses of \<open>Exception\<close>) other than \<open>requests.RequestException\<close>:
  \<open>input\<close> at the end of the standard input, an attribute looked up on a value that has
  none, an operation on a value of the wrong type, and any other, by the name of its class.
\<close>

datatype exn = EOFError | AttributeError | TypeError | Other string

text \<open>
  The outcome of one call of the \<open>requests\<close> library: it raises a
  \<open>requests.RequestException\<close>, or returns a response with a status code.
\<close>

datatype http_result = RequestException | Status nat

text \<open>
  One entry of the \<open>result\<close> array of \<open>GET /workers/scripts\<close>, and the outcome of that
  request: it raises a \<open>requests.RequestException\<close>; or it returns a status code and the
  array; or it returns, without an error status, a body of another shape, on which the
  code that reads it raises the exception given (\<open>TypeError\<close> when \<open>result\<close> is \<open>null\<close>,
  \<open>AttributeError\<close> when the body or an entry is no dictionary).
\<close>

record script =
  script_id :: "string option"
  created_on :: "string option"

datatype scripts_result =
    ScriptsRequestException
  | ScriptsResponse nat "script list"
  | ScriptsIllShaped exn

text \<open>
  What one iteration of the creation loop reads from outside: the name drawn by
  \<open>_generate_worker_name\<close>, the outcome of the \<open>PUT\<close> of the script, and the clock
  (\<open>time.strftime\<close>).
\<close>

record attempt =
  worker_name :: string
  put_result :: http_result
  clock :: string

text \<open>
  The provider object: the fields of \<open>self\<close> that the commands read (\<open>arg_url\<close> is
  \<open>self.url\<close>, \<open>number\<close> is \<open>self.args.number\<close>). \<open>None\<close> and the empty string are
  both false in a Python condition.
\<close>

record cloudflare =
  api_token :: "string option"
  account_id :: "string option"
  arg_url :: "string option"
  api_id :: "string option"
  number :: int
  hide_subdomain :: bool

text \<open>A parsed JSON value, for the body of the account response that \<open>status\<close> reads.\<close>

datatype json =
    JNull
  | JBool bool
  | JNumber int
  | JString string
  | JArray "json list"
  | JObject "(string \<times> json) list"

datatype account_result = AccountRequestException | AccountResponse nat json

text \<open>
  The answers of the network during one command. \<open>subdomain_result\<close> is what
  \<open>_ensure_subdomain\<close> returns; when it returns nothing because it raised, on a reply of
  a shape that it does not expect, \<open>subdomain_error\<close> is the exception.
  \<open>property_error\<close> is the exception that the property \<open>worker_subdomain\<close> raises on
  such a reply, if it does.
\<close>

record network =
  verify_response :: http_result
  subdomain_result :: "string option"
  subdomain_error :: "exn option"
  property_error :: "exn option"
  attempts :: "nat \<Rightarrow> attempt"
  delete_response :: "string \<Rightarrow> http_result"
  scripts_response :: scripts_result
  account_response :: account_result

definition truthy :: "string option \<Rightarrow> bool" where
  "truthy s = (case s of None \<Rightarrow> False | Some v \<Rightarrow> v \<noteq> [])"

definition sent :: "api_call \<Rightarrow> world \<Rightarrow> world" where
  "sent c w = w\<lparr>calls := calls w @ [c]\<rparr>"

subsection \<open>The cache: \<open>_load_endpoints\<close>, \<open>_save_all_endpoints\<close>, \<open>_save_endpoint\<close>, \<open>_remove_endpoint\<close>\<close>

definition load_endpoints :: "world \<Rightarrow> endpoint list" where
  "load_endpoints w =
     (case endpoints_file w of Absent \<Rightarrow> [] | Unreadable \<Rightarrow> [] | Json eps \<Rightarrow> eps)"

text \<open>The write is taken to succeed (an \<open>IOError\<close> is logged by the source and dropped).\<close>

definition save_all_endpoints :: "endpoint list \<Rightarrow> world \<Rightarrow> world" where
  "save_all_endpoints eps w = w\<lparr>endpoints_file := Json eps\<rparr>"

text \<open>
  The loop of \<open>_save_endpoint\<close>: the first entry of the same name is overwritten and the
  loop breaks; the flag is \<open>existing\<close>.
\<close>

fun update_existing :: "endpoint \<Rightarrow> endpoint list \<Rightarrow> endpoint list \<times> bool" where
  "update_existing e [] = ([], False)"
| "update_existing e (x # xs) =
     (if name x = name e then (e # xs, True)
      else (case update_existing e xs of (ys, existing) \<Rightarrow> (x # ys, existing)))"

definition save_endpoint :: "endpoint \<Rightarrow> world \<Rightarrow> world" where
  "save_endpoint e w =
     (case update_existing e (load_endpoints w) of
        (eps, existing) \<Rightarrow> save_all_endpoints (if existing then eps else eps @ [e]) w)"

definition remove_endpoint :: "string \<Rightarrow> world \<Rightarrow> world" where
  "remove_endpoint n w =
     save_all_endpoints (filter (\<lambda>ep. name ep \<noteq> n) (load_endpoints w)) w"

subsection \<open>\<open>init_provider\<close>\<close>

definition init_provider :: "cloudflare \<Rightarrow> network \<Rightarrow> world \<Rightarrow> bool \<times> world" where
  "init_provider self net w =
     (if \<not> truthy (api_token self) \<or> \<not> truthy (account_id self) then (False, w)
      else
        (case verify_response net of
           RequestException \<Rightarrow> (False, sent GetAccount w)
         | Status s \<Rightarrow>
             if s = 401 then (False, sent GetAccount w)
             else if s = 403 then (False, sent GetAccount w)
             else if s \<noteq> 200 then (False, sent GetAccount w)
             else (True, sent GetAccount w)))"

subsection \<open>\<open>delete\<close>\<close>

definition delete :: "cloudflare \<Rightarrow> network \<Rightarrow> world \<Rightarrow> bool \<times> world" where
  "delete self net w =
     (case init_provider self net w of
        (False, w1) \<Rightarrow> (False, w1)
      | (True, w1) \<Rightarrow>
          if \<not> truthy (api_id self) then (False, w1)
          else
            (let i = the (api_id self); w2 = sent (DeleteScript i) w1 in
             case delete_response net i of
               RequestException \<Rightarrow> (False, w2)
             | Status s \<Rightarrow>
                 if s = 200 \<or> s = 404 then (True, remove_endpoint i w2) else (False, w2)))"

subsection \<open>\<open>normalize_url\<close> (core/utils.py) and the number of proxies\<close>

definition rstrip_slash :: "string \<Rightarrow> string" where
  "rstrip_slash s = rev (dropWhile (\<lambda>c. c = CHR ''/'') (rev s))"

definition normalize_url :: "string \<Rightarrow> string" where
  "normalize_url u = (if u \<noteq> [] \<and> last u = CHR ''/'' then rstrip_slash u else u)"

text \<open>
  \<open>num_proxies\<close> as \<open>create\<close> computes it from \<open>args.number\<close>: below 1 it becomes 1,
  above 10 it becomes 10 (with a warning).
\<close>

definition num_proxies :: "int \<Rightarrow> nat" where
  "num_proxies n = (if n < 1 then 1 else if n > 10 then 10 else nat n)"

subsection \<open>\<open>create\<close>\<close>

text \<open>The two locals of the loop that the summary prints.\<close>

record batch =
  created_workers :: "(string \<times> string) list"
  failed_count :: nat

definition no_batch :: batch where
  "no_batch = \<lparr>created_workers = [], failed_count = 0\<rparr>"

text \<open>Whether the loop goes on, or the function has returned from inside it.\<close>

datatype flow = Running | Returned bool

text \<open>\<open>response.raise_for_status()\<close> raises for the client and server error codes.\<close>

definition raises_for_status :: "nat \<Rightarrow> bool" where
  "raises_for_status s = (400 \<le> s \<and> s < 600)"

definition worker_url :: "string \<Rightarrow> string \<Rightarrow> string" where
  "worker_url wn subdomain = ''https://'' @ wn @ ''.'' @ subdomain @ ''.workers.dev''"

definition new_endpoint :: "string \<Rightarrow> string \<Rightarrow> attempt \<Rightarrow> endpoint" where
  "new_endpoint target subdomain a =
     \<lparr>name = worker_name a, url = worker_url (worker_name a) subdomain,
      target_url = Some target, created_at = clock a, provider = ''cloudflare''\<rparr>"

text \<open>
  The \<open>except requests.RequestException\<close> branch of the loop body: the failure is counted,
  then a single-proxy call returns.
\<close>

definition request_failed :: "nat \<Rightarrow> batch \<Rightarrow> world \<Rightarrow> flow \<times> batch \<times> world" where
  "request_failed n b w =
     (if n = 1 then Returned False else Running, b\<lparr>failed_count := failed_count b + 1\<rparr>, w)"

text \<open>The branches for the status codes 401 and 403: a single-proxy call returns first.\<close>

definition denied :: "nat \<Rightarrow> batch \<Rightarrow> world \<Rightarrow> flow \<times> batch \<times> world" where
  "denied n b w =
     (if n = 1 then (Returned False, b, w)
      else (Running, b\<lparr>failed_count := failed_count b + 1\<rparr>, w))"

text \<open>One iteration of \<open>for i in range(num_proxies)\<close>.\<close>

definition create_one ::
  "network \<Rightarrow> string \<Rightarrow> string \<Rightarrow> nat \<Rightarrow> nat \<Rightarrow> batch \<Rightarrow> world \<Rightarrow> flow \<times> batch \<times> world" where
  "create_one net target subdomain n i b w =
     (let a = attempts net i; w1 = sent (PutScript (worker_name a)) w in
      case put_result a of
        RequestException \<Rightarrow> request_failed n b w1
      | Status s \<Rightarrow>
          if s = 401 then denied n b w1
          else if s = 403 then denied n b w1
          else if raises_for_status s then request_failed n b w1
          else
            (let w2 = sent (PostScriptSubdomain (worker_name a)) w1;
                 w3 = save_endpoint (new_endpoint target subdomain a) w2
             in (Running,
                 b\<lparr>created_workers :=
                      created_workers b @ [(worker_name a, worker_url (worker_name a) subdomain)]\<rparr>,
                 w3)))"

fun create_loop ::
  "network \<Rightarrow> string \<Rightarrow> string \<Rightarrow> nat \<Rightarrow> nat list \<Rightarrow> batch \<Rightarrow> world \<Rightarrow> flow \<times> batch \<times> world" where
  "create_loop net target subdomain n [] b w = (Running, b, w)"
| "create_loop net target subdomain n (i # is) b w =
     (case create_one net target subdomain n i b w of
        (Returned r, b', w') \<Rightarrow> (Returned r, b', w')
      | (Running, b', w') \<Rightarrow> create_loop net target subdomain n is b' w')"

text \<open>
  \<open>create\<close> returns its boolean; the batch is what the summary prints
  (\<open>len(created_workers)\<close> and \<open>failed_count\<close>). The outer handler of the method
  (\<open>except Exception\<close>) returns whether anything was created so far: when
  \<open>_ensure_subdomain\<close> raises, that is false with nothing created, as when it returns no
  subdomain. Inside the loop the calls modelled here raise nothing but a
  \<open>requests.RequestException\<close>.
\<close>

definition create :: "cloudflare \<Rightarrow> network \<Rightarrow> world \<Rightarrow> bool \<times> batch \<times> world" where
  "create self net w =
     (case init_provider self net w of
        (False, w1) \<Rightarrow> (False, no_batch, w1)
      | (True, w1) \<Rightarrow>
          if \<not> truthy (arg_url self) then (False, no_batch, w1)
          else
            (let target = normalize_url (the (arg_url self));
                 n = num_proxies (number self);
                 w2 = sent EnsureSubdomain w1
             in if \<not> truthy (subdomain_result net) then (False, no_batch, w2)
                else
                  (case create_loop net target (the (subdomain_result net)) n [0..<n] no_batch w2 of
                     (Returned r, b, w3) \<Rightarrow> (r, b, w3)
                   | (Running, b, w3) \<Rightarrow> (created_workers b \<noteq> [], b, w3))))"

text \<open>\<open>_create_single_proxy\<close>: \<open>create\<close> with \<open>args.number\<close> set to 1 for the call.\<close>

definition create_single_proxy :: "cloudflare \<Rightarrow> network \<Rightarrow> world \<Rightarrow> bool \<times> world" where
  "create_single_proxy self net w =
     (case create (self\<lparr>number := 1\<rparr>) net w of (r, b, w') \<Rightarrow> (r, w'))"

subsection \<open>\<open>sync_endpoints\<close> and \<open>list\<close>\<close>

definition omniprox_prefixes :: "string list" where
  "omniprox_prefixes =
     [''proxy-'', ''worker-'', ''api-'', ''service-'', ''app-'', ''edge-'', ''omniprox-'']"

text \<open>\<open>str.startswith\<close> with a tuple of prefixes.\<close>

definition startswith :: "string \<Rightarrow> string list \<Rightarrow> bool" where
  "startswith s ps = list_ex (\<lambda>p. take (length p) s = p) ps"

definition get_or :: "'a option \<Rightarrow> 'a \<Rightarrow> 'a" where
  "get_or v d = (case v of None \<Rightarrow> d | Some x \<Rightarrow> x)"

definition owned :: "script \<Rightarrow> bool" where
  "owned sc = startswith (get_or (script_id sc) []) omniprox_prefixes"

definition remote_worker :: "string \<Rightarrow> script \<Rightarrow> endpoint" where
  "remote_worker subdomain sc =
     \<lparr>name = get_or (script_id sc) [],
      url = worker_url (get_or (script_id sc) []) subdomain,
      target_url = None,
      created_at = get_or (created_on sc) ''unknown'',
      provider = ''cloudflare''\<rparr>"

text \<open>
  \<open>sync_endpoints\<close> catches \<open>requests.RequestException\<close> only: another exception of
  \<open>_ensure_subdomain\<close> or of the reading of the listing leaves it.
\<close>

definition sync_endpoints :: "network \<Rightarrow> world \<Rightarrow> (exn + endpoint list) \<times> world" where
  "sync_endpoints net w =
     (let w1 = sent EnsureSubdomain w in
      if \<not> truthy (subdomain_result net) then
        (case subdomain_error net of
           Some e \<Rightarrow> (Inl e, w1)
         | None \<Rightarrow> (Inr (load_endpoints w1), w1))
      else
        (let w2 = sent GetScripts w1 in
         case scripts_response net of
           ScriptsRequestException \<Rightarrow> (Inr (load_endpoints w2), w2)
         | ScriptsIllShaped e \<Rightarrow> (Inl e, w2)
         | ScriptsResponse s scripts \<Rightarrow>
             if raises_for_status s then (Inr (load_endpoints w2), w2)
             else
               (let remote_workers =
                      map (remote_worker (the (subdomain_result net))) (filter owned scripts)
                in (Inr remote_workers, save_all_endpoints remote_workers w2))))"

text \<open>
  \<open>list\<close> (here \<open>list_workers\<close>, the name \<open>list\<close> being the type's) returns its
  boolean; the endpoints are the rows it prints. Its handler (\<open>except Exception\<close>) returns
  false.
\<close>

definition list_workers :: "cloudflare \<Rightarrow> network \<Rightarrow> world \<Rightarrow> bool \<times> endpoint list \<times> world" where
  "list_workers self net w =
     (case init_provider self net w of
        (False, w1) \<Rightarrow> (False, [], w1)
      | (True, w1) \<Rightarrow>
          (case sync_endpoints net w1 of
             (Inl e, w2) \<Rightarrow> (False, [], w2)
           | (Inr endpoints, w2) \<Rightarrow> (True, endpoints, w2)))"

subsection \<open>\<open>cleanup\<close>\<close>

text \<open>\<open>input\<close>: the next line of the standard input, or \<open>EOFError\<close> when there is none.\<close>

definition input_line :: "world \<Rightarrow> (exn + string) \<times> world" where
  "input_line w =
     (case stdin_lines w of
        [] \<Rightarrow> (Inl EOFError, w)
      | l # ls \<Rightarrow> (Inr l, w\<lparr>stdin_lines := ls\<rparr>))"

text \<open>
  \<open>str.lower\<close> on the ASCII letters (its results are compared with ASCII words only), and
  \<open>str.strip\<close> with the white space below 256.
\<close>

definition lower_char :: "char \<Rightarrow> char" where
  "lower_char c =
     (if 65 \<le> (of_char c :: nat) \<and> (of_char c :: nat) \<le> 90
      then char_of ((of_char c :: nat) + 32) else c)"

definition lower :: "string \<Rightarrow> string" where
  "lower s = map lower_char s"

definition isspace :: "char \<Rightarrow> bool" where
  "isspace c =
     (let k = (of_char c :: nat)
      in (9 \<le> k \<and> k \<le> 13) \<or> (28 \<le> k \<and> k \<le> 32) \<or> k = 133 \<or> k = 160)"

definition strip :: "string \<Rightarrow> string" where
  "strip s = rev (dropWhile isspace (rev (dropWhile isspace s)))"

text \<open>The loop of \<open>cleanup\<close> over the synced endpoints, with its two counters.\<close>

fun delete_each :: "network \<Rightarrow> endpoint list \<Rightarrow> nat \<Rightarrow> nat \<Rightarrow> world \<Rightarrow> nat \<times> nat \<times> world" where
  "delete_each net [] deleted failed w = (deleted, failed, w)"
| "delete_each net (e # es) deleted failed w =
     (if startswith (name e) omniprox_prefixes then
        (case delete_response net (name e) of
           RequestException \<Rightarrow> delete_each net es deleted (failed + 1) (sent (DeleteScript (name e)) w)
         | Status s \<Rightarrow>
             if s = 200 \<or> s = 404
             then delete_each net es (deleted + 1) failed (sent (DeleteScript (name e)) w)
             else delete_each net es deleted (failed + 1) (sent (DeleteScript (name e)) w))
      else delete_each net es deleted failed w)"

definition unlink_endpoints :: "world \<Rightarrow> world" where
  "unlink_endpoints w = w\<lparr>endpoints_file := Absent\<rparr>"

text \<open>
  The confirmation of \<open>cleanup\<close> is read outside its \<open>try\<close>: an \<open>EOFError\<close> of \<open>input\<close>
  leaves the method. What \<open>sync_endpoints\<close> raises is caught (\<open>except Exception\<close>) and
  the method returns false.
\<close>

definition confirm_cleanup :: "world \<Rightarrow> (exn + string) \<times> world" where
  "confirm_cleanup w = (if \<not> stdin_isatty w then (Inr ''yes'', w) else input_line w)"

definition cleanup :: "cloudflare \<Rightarrow> network \<Rightarrow> world \<Rightarrow> (exn + bool) \<times> world" where
  "cleanup self net w =
     (case init_provider self net w of
        (False, w1) \<Rightarrow> (Inr False, w1)
      | (True, w1) \<Rightarrow>
          (case confirm_cleanup w1 of
             (Inl e, w2) \<Rightarrow> (Inl e, w2)
           | (Inr confirm, w2) \<Rightarrow>
               if lower confirm \<noteq> ''yes'' then (Inr False, w2)
               else
                 (case sync_endpoints net w2 of
                    (Inl e, w3) \<Rightarrow> (Inr False, w3)
                  | (Inr endpoints, w3) \<Rightarrow>
                      if endpoints = [] then (Inr True, w3)
                      else
                        (case delete_each net endpoints 0 0 w3 of
                           (deleted, failed, w4) \<Rightarrow> (Inr True, unlink_endpoints w4)))))"

subsection \<open>\<open>status\<close>\<close>

text \<open>
  \<open>d.get(k, default)\<close> on a parsed JSON value: a dictionary answers (of a key that the
  text repeats, \<open>json\<close> keeps the last value), any other value has no attribute \<open>get\<close>.
\<close>

definition dict_get :: "json \<Rightarrow> string \<Rightarrow> json \<Rightarrow> exn + json" where
  "dict_get d k dflt =
     (case d of
        JObject kvs \<Rightarrow> Inr (get_or (map_of (rev kvs) k) dflt)
      | _ \<Rightarrow> Inl AttributeError)"

text \<open>
  \<open>status\<close> catches \<open>requests.RequestException\<close> only: what the reading of the account
  body, the property \<open>worker_subdomain\<close> or \<open>sync_endpoints\<close> raises leaves the method.
  The body of the account response is taken to be JSON text.
\<close>

definition status :: "cloudflare \<Rightarrow> network \<Rightarrow> world \<Rightarrow> (exn + bool) \<times> world" where
  "status self net w =
     (case init_provider self net w of
        (False, w1) \<Rightarrow> (Inr False, w1)
      | (True, w1) \<Rightarrow>
          (let w2 = sent GetAccount w1 in
           case account_response net of
             AccountRequestException \<Rightarrow> (Inr False, w2)
           | AccountResponse s body \<Rightarrow>
               if s = 200 then
                 (case dict_get body ''result'' (JObject []) of
                    Inl e \<Rightarrow> (Inl e, w2)
                  | Inr account_info \<Rightarrow>
                      (case dict_get account_info ''name'' (JString ''N/A'') of
                         Inl e \<Rightarrow> (Inl e, w2)
                       | Inr account_name \<Rightarrow>
                           (let w3 = sent GetSubdomain w2 in
                            case property_error net of
                              Some e \<Rightarrow> (Inl e, w3)
                            | None \<Rightarrow>
                                (case sync_endpoints net w3 of
                                   (Inl e, w4) \<Rightarrow> (Inl e, w4)
                                 | (Inr endpoints, w4) \<Rightarrow> (Inr True, w4)))))
               else (Inr False, w2)))"

subsection \<open>\<open>_get_last_created_proxy_url\<close>\<close>

text \<open>
  \<open>max(endpoints, key=...)\<close>: the first endpoint whose \<open>created_at\<close> no other exceeds, in
  the order of Python strings.
\<close>

definition latest :: "endpoint \<Rightarrow> endpoint list \<Rightarrow> endpoint" where
  "latest e es = foldl (\<lambda>best x. if created_at best < created_at x then x else best) e es"

definition get_last_created_proxy_url :: "network \<Rightarrow> world \<Rightarrow> string option \<times> world" where
  "get_last_created_proxy_url net w =
     (case sync_endpoints net w of
        (Inl e, w1) \<Rightarrow> (None, w1)
      | (Inr endpoints, w1) \<Rightarrow>
          (case endpoints of
             [] \<Rightarrow> (None, w1)
           | e # es \<Rightarrow>
               (if url (latest e es) \<noteq> []
                then (Some (url (latest e es) @ ''?url=https://ipinfo.io/ip''), w1)
                else (None, w1))))"

section \<open>The base class: \<open>proxytest\<close> and \<open>execute\<close> (core/base.py)\<close>

text \<open>
  \<open>proxytest\<close> calls three methods of the provider: \<open>_create_single_proxy\<close> (or
  \<open>create\<close>), \<open>_get_last_created_proxy_url\<close> and \<open>cleanup\<close>. The first two get the number
  of the iteration, which selects the answers of the network.
\<close>

record hooks =
  create_hook :: "nat \<Rightarrow> world \<Rightarrow> (exn + bool) \<times> world"
  last_url_hook :: "nat \<Rightarrow> world \<Rightarrow> (exn + string option) \<times> world"
  cleanup_hook :: "world \<Rightarrow> (exn + bool) \<times> world"

text \<open>Step 1: \<open>for i in range(test_count)\<close>, collecting \<open>created_proxies\<close>.\<close>

fun create_test_proxies ::
  "hooks \<Rightarrow> nat list \<Rightarrow> string list \<Rightarrow> world \<Rightarrow> (exn + string list) \<times> world" where
  "create_test_proxies h [] created_proxies w = (Inr created_proxies, w)"
| "create_test_proxies h (i # is) created_proxies w =
     (case create_hook h i w of
        (Inl e, w1) \<Rightarrow> (Inl e, w1)
      | (Inr result, w1) \<Rightarrow>
          if result then
            (case last_url_hook h i w1 of
               (Inl e, w2) \<Rightarrow> (Inl e, w2)
             | (Inr proxy_url, w2) \<Rightarrow>
                 if truthy proxy_url
                 then create_test_proxies h is (created_proxies @ [the proxy_url]) w2
                 else create_test_proxies h is created_proxies w2)
          else create_test_proxies h is created_proxies w1)"

text \<open>
  Step 2: one \<open>requests.get\<close> for each created proxy. The request raises, or returns a
  status code and a body.
\<close>

datatype probe_result = ProbeException | ProbeResponse nat string

fun test_rotation ::
  "(nat \<Rightarrow> string \<Rightarrow> probe_result) \<Rightarrow> (nat \<times> string) list \<Rightarrow> string set \<Rightarrow> string set" where
  "test_rotation probe [] unique_ips = unique_ips"
| "test_rotation probe ((i, proxy_url) # rest) unique_ips =
     (case probe i proxy_url of
        ProbeException \<Rightarrow> test_rotation probe rest unique_ips
      | ProbeResponse status_code body \<Rightarrow>
          if status_code = 200 then test_rotation probe rest (insert (strip body) unique_ips)
          else test_rotation probe rest unique_ips)"

definition enumerate_list :: "'a list \<Rightarrow> (nat \<times> 'a) list" where
  "enumerate_list xs = zip [0..<length xs] xs"

text \<open>Step 3: the three printed numbers and the printed verdict.\<close>

datatype verdict = RotationWorking | NoRotation | NoSuccessfulResponses

record report =
  proxies_created :: nat
  successful_responses :: nat
  unique_ips_detected :: nat
  verdict :: verdict

definition results_summary :: "string list \<Rightarrow> string set \<Rightarrow> report" where
  "results_summary created_proxies unique_ips =
     \<lparr>proxies_created = length created_proxies,
      successful_responses = card unique_ips,
      unique_ips_detected = card unique_ips,
      verdict =
        (if card unique_ips > 1 then RotationWorking
         else if card unique_ips = 1 then NoRotation
         else NoSuccessfulResponses)\<rparr>"

text \<open>
  The prompt after the summary. \<open>EOFError\<close> (from \<open>input\<close> or from \<open>cleanup\<close>) is caught
  next to it; any other exception reaches the outer handler, which returns \<open>False\<close>.
\<close>

definition offer_cleanup :: "hooks \<Rightarrow> world \<Rightarrow> exn option \<times> world" where
  "offer_cleanup h w =
     (case input_line w of
        (Inl e, w1) \<Rightarrow> (if e = EOFError then None else Some e, w1)
      | (Inr answer, w1) \<Rightarrow>
          if lower (strip answer) = ''y'' then
            (case cleanup_hook h w1 of
               (Inl e, w2) \<Rightarrow> (if e = EOFError then None else Some e, w2)
             | (Inr r, w2) \<Rightarrow> (None, w2))
          else (None, w1))"

text \<open>
  \<open>proxytest\<close> returns its boolean; the report is what Step 3 prints, when Step 3 is
  reached.
\<close>

definition proxytest ::
  "hooks \<Rightarrow> (nat \<Rightarrow> string \<Rightarrow> probe_result) \<Rightarrow> world \<Rightarrow> bool \<times> report option \<times> world" where
  "proxytest h probe w =
     (case create_test_proxies h [0..<3] [] w of
        (Inl e, w1) \<Rightarrow> (False, None, w1)
      | (Inr created_proxies, w1) \<Rightarrow>
          (let unique_ips = test_rotation probe (enumerate_list created_proxies) {} in
           case offer_cleanup h w1 of
             (Some e, w2) \<Rightarrow> (False, Some (results_summary created_proxies unique_ips), w2)
           | (None, w2) \<Rightarrow>
               (card unique_ips > 0, Some (results_summary created_proxies unique_ips), w2)))"

text \<open>
  \<open>execute\<close>. The provider object enters with its eight methods; \<open>command_map\<close> is the
  dictionary that \<open>execute\<close> builds from them. The command is looked up in it and called
  inside a \<open>try\<close> whose handler logs the exception and raises it again.
\<close>

type_synonym command = "world \<Rightarrow> (exn + bool) \<times> world"

record methods =
  create_method :: command
  list_method :: command
  delete_method :: command
  update_method :: command
  status_method :: command
  usage_method :: command
  cleanup_method :: command
  proxytest_method :: command

definition command_map :: "methods \<Rightarrow> (string \<rightharpoonup> command)" where
  "command_map self =
     [''create'' \<mapsto> create_method self,
      ''list'' \<mapsto> list_method self,
      ''delete'' \<mapsto> delete_method self,
      ''update'' \<mapsto> update_method self,
      ''status'' \<mapsto> status_method self,
      ''usage'' \<mapsto> usage_method self,
      ''cleanup'' \<mapsto> cleanup_method self,
      ''proxytest'' \<mapsto> proxytest_method self]"

definition execute :: "methods \<Rightarrow> string option \<Rightarrow> world \<Rightarrow> (exn + bool) \<times> world" where
  "execute self cmd w =
     (case cmd of
        None \<Rightarrow> (Inr False, w)
      | Some c \<Rightarrow>
          (case command_map self c of
             None \<Rightarrow> (Inr False, w)
           | Some method \<Rightarrow>
               (case method w of
                  (Inr result, w1) \<Rightarrow> (Inr result, w1)
                | (Inl e, w1) \<Rightarrow> (Inl e, w1))))"

subsection \<open>The Cloudflare methods that \<open>proxytest\<close> calls\<close>

text \<open>
  \<open>proxytest\<close> calls the methods one after another on the same provider object, which
  keeps the subdomain once \<open>_ensure_subdomain\<close> has returned one: from then on
  \<open>_ensure_subdomain\<close> and the property return the subdomain kept, without a request and
  without an exception, whatever the network would answer.
\<close>

definition cached :: "world \<Rightarrow> network \<Rightarrow> network" where
  "cached w net =
     (if truthy (subdomain_cache w)
      then net\<lparr>subdomain_result := subdomain_cache w, subdomain_error := None,
               property_error := None\<rparr>
      else net)"

text \<open>Whether \<open>_ensure_subdomain\<close> has been called between two worlds.\<close>

definition ensured :: "world \<Rightarrow> world \<Rightarrow> bool" where
  "ensured w w' = (EnsureSubdomain \<in> set (drop (length (calls w)) (calls w')))"

definition keep_subdomain :: "network \<Rightarrow> world \<Rightarrow> world \<Rightarrow> world" where
  "keep_subdomain net w w' =
     (if ensured w w' \<and> truthy (subdomain_result net)
      then w'\<lparr>subdomain_cache := subdomain_result net\<rparr> else w')"

definition on_object :: "(network \<Rightarrow> world \<Rightarrow> 'a \<times> world) \<Rightarrow> network \<Rightarrow> world \<Rightarrow> 'a \<times> world" where
  "on_object method net w =
     (case method (cached w net) w of (r, w') \<Rightarrow> (r, keep_subdomain (cached w net) w w'))"

text \<open>
  During \<open>proxytest\<close>, \<open>self.url\<close> is the test URL; creation \<open>i\<close> is answered by
  \<open>nets (2 * i)\<close>, the lookup after it by \<open>nets (2 * i + 1)\<close>, and the cleanup by \<open>nets 6\<close>.
\<close>

definition test_url :: string where
  "test_url = ''https://ipinfo.io/ip''"

definition cloudflare_hooks :: "cloudflare \<Rightarrow> (nat \<Rightarrow> network) \<Rightarrow> hooks" where
  "cloudflare_hooks self nets =
     \<lparr>create_hook =
        (\<lambda>i w. case on_object (create_single_proxy (self\<lparr>arg_url := Some test_url\<rparr>))
                      (nets (2 * i)) w of
                 (r, w1) \<Rightarrow> (Inr r, w1)),
      last_url_hook =
        (\<lambda>i w. case on_object get_last_created_proxy_url (nets (2 * i + 1)) w of
                 (u, w1) \<Rightarrow> (Inr u, w1)),
      cleanup_hook = on_object (cleanup (self\<lparr>arg_url := Some test_url\<rparr>)) (nets 6)\<rparr>"

section \<open>The command line: the \<open>try\<close> block of \<open>main\<close> (cli.py)\<close>

text \<open>
  The exit status: 0 when \<open>execute\<close> returns true, 1 when it returns false, and 1 from
  both handlers (\<open>KeyboardInterrupt\<close> and \<open>Exception\<close>).
\<close>

definition main_exit :: "(exn + bool) \<Rightarrow> nat" where
  "main_exit r = (case r of Inr success \<Rightarrow> (if success then 0 else 1) | Inl e \<Rightarrow> 1)"

subsection \<open>\<open>validate_url\<close>, \<open>require_url\<close> and \<open>require_api_id\<close> (core/base.py)\<close>

text \<open>
  \<open>urllib.parse.urlparse\<close> is a parameter: it gives the scheme and the network location of
  a URL. Of the providers only Alibaba calls \<open>require_url\<close>; none calls
  \<open>require_api_id\<close>.
\<close>

definition validate_url :: "(string \<Rightarrow> string \<times> string) \<Rightarrow> string option \<Rightarrow> bool" where
  "validate_url urlparse u =
     (if \<not> truthy u then False
      else (case urlparse (the u) of (scheme, netloc) \<Rightarrow> scheme \<noteq> [] \<and> netloc \<noteq> []))"

definition require_url :: "(string \<Rightarrow> string \<times> string) \<Rightarrow> string option \<Rightarrow> bool" where
  "require_url urlparse u =
     (if \<not> truthy u then False else if \<not> validate_url urlparse u then False else True)"

definition require_api_id :: "string option \<Rightarrow> bool" where
  "require_api_id i = (if \<not> truthy i then False else True)"

section \<open>Writing a store file\<close>









section \<open>Loading a provider module (cli.py, providers, core/utils.py)\<close>

text \<open>The names that core/utils.py binds at its top level, in the order of the file.\<close>

definition utils_names :: "string list" where
  "utils_names =
     [''logging'', ''sys'', ''Path'', ''Optional'',
      ''setup_logging'', ''check_provider_availability'', ''check_gcp_availability'',
      ''check_cloudflare_availability'', ''check_azure_availability'',
      ''check_alibaba_availability'', ''get_available_providers'', ''print_provider_status'',
      ''normalize_url'', ''format_timestamp'', ''truncate_text'', ''get_unique_suffix'']"

datatype provider_module = Gcp | Azure | Cloudflare | Alibaba

text \<open>The names each provider module imports from core/utils.py at its top level.\<close>

fun imports_from_utils :: "provider_module \<Rightarrow> string list" where
  "imports_from_utils Gcp = [''confirm_action'', ''normalize_url'']"
| "imports_from_utils Azure = [''confirm_action'', ''get_unique_suffix'']"
| "imports_from_utils Cloudflare = [''normalize_url'']"
| "imports_from_utils Alibaba = []"

datatype import_error = ImportError string

text \<open>
  \<open>from ..core.utils import a, b\<close>: the first name that the module does not bind raises
  \<open>ImportError\<close>, and the provider module is not loaded.
\<close>

definition import_module :: "provider_module \<Rightarrow> import_error + provider_module" where
  "import_module m =
     (case filter (\<lambda>n. n \<notin> set utils_names) (imports_from_utils m) of
        [] \<Rightarrow> Inr m
      | n # ns \<Rightarrow> Inl (ImportError n))"

text \<open>
  \<open>check_provider_availability\<close>: whether the provider's SDK can be imported, which is a
  parameter; the Alibaba check returns true without trying.
\<close>

definition availability :: "(string \<times> provider_module) list" where
  "availability =
     [(''gcp'', Gcp), (''azure'', Azure), (''az'', Azure), (''cloudflare'', Cloudflare),
      (''cf'', Cloudflare), (''azure-fd'', Azure), (''azure-frontdoor'', Azure),
      (''gcp-lb'', Gcp), (''gcp-loadbalancer'', Gcp), (''alibaba'', Alibaba),
      (''aliyun'', Alibaba)]"

definition check_provider_availability :: "(provider_module \<Rightarrow> bool) \<Rightarrow> string \<Rightarrow> bool" where
  "check_provider_availability sdk p =
     (case map_of availability (lower p) of
        None \<Rightarrow> False
      | Some m \<Rightarrow> (if m = Alibaba then True else sdk m))"

definition get_provider_class ::
  "(provider_module \<Rightarrow> bool) \<Rightarrow> string \<Rightarrow> import_error + provider_module option" where
  "get_provider_class sdk p =
     (if \<not> check_provider_availability sdk p then Inr None
      else if p = ''gcp'' then map_sum id Some (import_module Gcp)
      else if p = ''azure'' \<or> p = ''az'' then map_sum id Some (import_module Azure)
      else if p = ''cloudflare'' \<or> p = ''cf'' then map_sum id Some (import_module Cloudflare)
      else if p = ''alibaba'' then map_sum id Some (import_module Alibaba)
      else Inr None)"

text \<open>The aliases that \<open>main\<close> replaces before it asks for the class.\<close>

definition provider_alias :: "string \<Rightarrow> string" where
  "provider_alias p = (if p = ''cf'' then ''cloudflare'' else if p = ''az'' then ''azure'' else p)"

section \<open>Vocabulary of the statements\<close>

text \<open>
  An attempt succeeds when the loop body of \<open>create\<close> reaches \<open>_save_endpoint\<close>: the
  \<open>PUT\<close> returned, and its status is none that the body rejects.
\<close>

definition succeeds :: "attempt \<Rightarrow> bool" where
  "succeeds a =
     (case put_result a of
        RequestException \<Rightarrow> False
      | Status s \<Rightarrow> s \<noteq> 401 \<and> s \<noteq> 403 \<and> \<not> raises_for_status s)"

definition successes :: "network \<Rightarrow> nat list \<Rightarrow> nat list" where
  "successes net is = filter (\<lambda>i. succeeds (attempts net i)) is"

definition failures :: "network \<Rightarrow> nat list \<Rightarrow> nat list" where
  "failures net is = filter (\<lambda>i. \<not> succeeds (attempts net i)) is"

text \<open>What \<open>_save_endpoint\<close> does to the list it loaded.\<close>

definition put_endpoint :: "endpoint \<Rightarrow> endpoint list \<Rightarrow> endpoint list" where
  "put_endpoint e eps =
     (case update_existing e eps of (ys, existing) \<Rightarrow> if existing then ys else ys @ [e])"

text \<open>
  A process killed inside \<open>_save_all_endpoints\<close>, after \<open>open(path, 'w')\<close> has emptied the
  file and before the close has brought the whole text to it, leaves the file with a
  proper leading part of a JSON text, which \<open>json.load\<close> rejects.
\<close>

definition killed_in_save :: "world \<Rightarrow> world" where
  "killed_in_save w = w\<lparr>endpoints_file := Unreadable\<rparr>"



text \<open>The name \<open>sync_endpoints\<close> reads from a script: \<open>script.get("id", "")\<close>.\<close>

definition script_name :: "script \<Rightarrow> string" where
  "script_name sc = get_or (script_id sc) []"

text \<open>
  The identifiers that the probes of \<open>proxytest\<close> collect, one for each response of status
  200, in the order of the probes and with repetitions; \<open>unique_ips\<close> is the set of them.
\<close>

definition ok_bodies :: "(nat \<Rightarrow> string \<Rightarrow> probe_result) \<Rightarrow> (nat \<times> string) list \<Rightarrow> string list" where
  "ok_bodies probe ps =
     concat (map (\<lambda>(i, u). case probe i u of
                               ProbeException \<Rightarrow> []
                             | ProbeResponse s body \<Rightarrow> if s = 200 then [strip body] else []) ps)"

text \<open>The classification by the number of distinct identifiers.\<close>

definition classify :: "nat \<Rightarrow> verdict" where
  "classify k = (if k > 1 then RotationWorking else if k = 1 then NoRotation else NoSuccessfulResponses)"

section \<open>Example runs\<close>

definition example_provider :: cloudflare where
  "example_provider =
     \<lparr>api_token = Some ''token'', account_id = Some ''account'',
      arg_url = Some ''https://example.local'', api_id = Some ''proxy-1700000000-aaaaaa'',
      number = 5, hide_subdomain = False\<rparr>"

definition example_names :: "string list" where
  "example_names =
     [''proxy-1700000000-aaaaaa'', ''worker-1700000001-bbbbbb'', ''api-1700000002-cccccc'',
      ''edge-1700000003-dddddd'', ''app-1700000004-eeeeee'']"

text \<open>Five attempts, of which the second fails with a server error.\<close>

definition example_attempt :: "nat \<Rightarrow> attempt" where
  "example_attempt i =
     \<lparr>worker_name = (if i < 5 then example_names ! i else ''service-1700000005-ffffff''),
      put_result = (if i = 1 then Status 500 else Status 200),
      clock = ''2024-01-01 00:00:00''\<rparr>"

definition example_scripts :: "script list" where
  "example_scripts =
     [\<lparr>script_id = Some ''proxy-1700000000-aaaaaa'', created_on = Some ''2024-01-01T00:00:00Z''\<rparr>,
      \<lparr>script_id = Some ''worker-1700000001-bbbbbb'', created_on = Some ''2024-01-01T00:00:01Z''\<rparr>,
      \<lparr>script_id = Some ''billing-site'', created_on = Some ''2023-05-05T00:00:00Z''\<rparr>]"

definition example_network :: network where
  "example_network =
     \<lparr>verify_response = Status 200, subdomain_result = Some ''example'',
      subdomain_error = None, property_error = None,
      attempts = example_attempt, delete_response = (\<lambda>n. Status 200),
      scripts_response = ScriptsResponse 200 example_scripts,
      account_response = AccountResponse 200 (JObject [(''success'', JBool False), (''result'', JNull)])\<rparr>"

definition example_endpoint :: "string \<Rightarrow> endpoint" where
  "example_endpoint n =
     \<lparr>name = n, url = worker_url n ''example'', target_url = Some ''https://example.local'',
      created_at = ''2024-01-01 00:00:00'', provider = ''cloudflare''\<rparr>"

definition empty_world :: world where
  "empty_world =
     \<lparr>endpoints_file = Absent, calls = [], stdin_isatty = False, stdin_lines = [],
      subdomain_cache = None\<rparr>"

definition example_world :: world where
  "example_world =
     \<lparr>endpoints_file = Json [example_endpoint ''proxy-1700000000-aaaaaa''],
      calls = [], stdin_isatty = False, stdin_lines = [], subdomain_cache = None\<rparr>"


text \<open>
  Stand-ins for the provider's methods and for the probed proxies: every creation succeeds
  and yields a URL, and probe \<open>i\<close> answers 200 with the \<open>i\<close>-th of the given bodies.
\<close>

definition stub_urls :: "string list" where
  "stub_urls =
     [''https://proxy-a.example.workers.dev?url=https://ipinfo.io/ip'',
      ''https://proxy-b.example.workers.dev?url=https://ipinfo.io/ip'',
      ''https://proxy-c.example.workers.dev?url=https://ipinfo.io/ip'']"

definition stub_hooks :: hooks where
  "stub_hooks =
     \<lparr>create_hook = (\<lambda>i w. (Inr True, w)),
      last_url_hook = (\<lambda>i w. (Inr (if i < 3 then Some (stub_urls ! i) else None), w)),
      cleanup_hook = (\<lambda>w. (Inr True, w))\<rparr>"

definition stub_probe :: "string list \<Rightarrow> nat \<Rightarrow> string \<Rightarrow> probe_result" where
  "stub_probe ips i u = (if i < length ips then ProbeResponse 200 (ips ! i) else ProbeException)"

text \<open>A provider object whose methods all return true, for the dispatch alone.\<close>

definition stub_methods :: methods where
  "stub_methods =
     \<lparr>create_method = (\<lambda>w. (Inr True, w)), list_method = (\<lambda>w. (Inr True, w)),
      delete_method = (\<lambda>w. (Inr True, w)), update_method = (\<lambda>w. (Inr True, w)),
      status_method = (\<lambda>w. (Inr True, w)), usage_method = (\<lambda>w. (Inr True, w)),
      cleanup_method = (\<lambda>w. (Inr True, w)), proxytest_method = (\<lambda>w. (Inr True, w))\<rparr>"

section \<open>The local cache\<close>

lemma load_sent [simp]: "load_endpoints (sent c w) = load_endpoints w"
  by (simp add: load_endpoints_def sent_def)

lemma endpoints_file_sent [simp]: "endpoints_file (sent c w) = endpoints_file w"
  by (simp add: sent_def)

lemma load_save_all [simp]: "load_endpoints (save_all_endpoints eps w) = eps"
  by (simp add: load_endpoints_def save_all_endpoints_def)

lemma load_remove [simp]:
  "load_endpoints (remove_endpoint n w) = filter (\<lambda>ep. name ep \<noteq> n) (load_endpoints w)"
  by (simp add: remove_endpoint_def)

lemma update_existing_fresh:
  "name e \<notin> name ` set eps \<Longrightarrow> update_existing e eps = (eps, False)"
  by (induction eps) auto

lemma load_save_endpoint:
  "load_endpoints (save_endpoint e w) = put_endpoint e (load_endpoints w)"
  by (simp add: save_endpoint_def put_endpoint_def split: prod.splits)

lemma put_endpoint_fresh:
  "name e \<notin> name ` set eps \<Longrightarrow> put_endpoint e eps = eps @ [e]"
  by (simp add: put_endpoint_def update_existing_fresh)

lemma foldl_put_fresh:
  "distinct (map name es) \<Longrightarrow> name ` set es \<inter> name ` set eps = {} \<Longrightarrow>
   foldl (\<lambda>eps e. put_endpoint e eps) eps es = eps @ es"
proof (induction es arbitrary: eps)
  case Nil
  then show ?case by simp
next
  case (Cons e es)
  have fresh: "name e \<notin> name ` set eps" using Cons.prems(2) by auto
  have "foldl (\<lambda>eps e. put_endpoint e eps) (eps @ [e]) es = (eps @ [e]) @ es"
    using Cons.prems by (intro Cons.IH) auto
  then show ?case by (simp add: put_endpoint_fresh[OF fresh])
qed

lemma init_provider_ok:
  "truthy (api_token self) \<Longrightarrow> truthy (account_id self) \<Longrightarrow>
   verify_response net = Status 200 \<Longrightarrow>
   init_provider self net w = (True, sent GetAccount w)"
  by (simp add: init_provider_def)

section \<open>Deleting a worker\<close>

lemma delete_gone:
  assumes "truthy (api_token self)" "truthy (account_id self)"
    and "verify_response net = Status 200"
    and "api_id self = Some i" "i \<noteq> []"
    and "delete_response net i = Status 200 \<or> delete_response net i = Status 404"
  shows "delete self net w = (True, remove_endpoint i (sent (DeleteScript i) (sent GetAccount w)))"
  using assms by (auto simp: delete_def init_provider_ok truthy_def Let_def)

text \<open>
  C3. With verified credentials and a worker name given, \<open>delete\<close> returns true when the
  API answers 200 and when it answers 404, and in both cases the cache afterwards holds the
  former entries without those of that name. So two deletes of the same name both return
  true, whichever of the two answers each one gets, and the second leaves the cache as the
  first left it.
\<close>

theorem delete_twice_succeeds:
  assumes "truthy (api_token self)" "truthy (account_id self)"
    and "verify_response net1 = Status 200" "verify_response net2 = Status 200"
    and "api_id self = Some i" "i \<noteq> []"
    and "delete_response net1 i = Status 200 \<or> delete_response net1 i = Status 404"
    and "delete_response net2 i = Status 200 \<or> delete_response net2 i = Status 404"
  shows "fst (delete self net1 w)
       \<and> load_endpoints (snd (delete self net1 w)) = filter (\<lambda>ep. name ep \<noteq> i) (load_endpoints w)
       \<and> fst (delete self net2 (snd (delete self net1 w)))
       \<and> load_endpoints (snd (delete self net2 (snd (delete self net1 w))))
           = filter (\<lambda>ep. name ep \<noteq> i) (load_endpoints w)"
  using assms by (simp add: delete_gone)

theorem delete_twice_succeeds_witness:
  "fst (delete example_provider example_network example_world)
   \<and> load_endpoints (snd (delete example_provider example_network example_world)) = []
   \<and> fst (delete example_provider (example_network\<lparr>delete_response := (\<lambda>n. Status 404)\<rparr>)
             (snd (delete example_provider example_network example_world)))
   \<and> load_endpoints
        (snd (delete example_provider (example_network\<lparr>delete_response := (\<lambda>n. Status 404)\<rparr>)
                (snd (delete example_provider example_network example_world)))) = []"
  using delete_twice_succeeds [of example_provider example_network
      "example_network\<lparr>delete_response := (\<lambda>n. Status 404)\<rparr>" "''proxy-1700000000-aaaaaa''"
      example_world]
  by (simp add: example_provider_def example_network_def example_world_def example_endpoint_def
      truthy_def load_endpoints_def)

section \<open>The creation loop\<close>

lemma create_one_success:
  "succeeds (attempts net i) \<Longrightarrow>
   create_one net t sd n i b w =
     (Running,
      b\<lparr>created_workers := created_workers b @
           [(worker_name (attempts net i), worker_url (worker_name (attempts net i)) sd)]\<rparr>,
      save_endpoint (new_endpoint t sd (attempts net i))
        (sent (PostScriptSubdomain (worker_name (attempts net i)))
           (sent (PutScript (worker_name (attempts net i))) w)))"
  by (auto simp: create_one_def succeeds_def Let_def split: http_result.splits)

lemma create_one_failure:
  "\<not> succeeds (attempts net i) \<Longrightarrow> n \<noteq> 1 \<Longrightarrow>
   create_one net t sd n i b w =
     (Running, b\<lparr>failed_count := failed_count b + 1\<rparr>,
      sent (PutScript (worker_name (attempts net i))) w)"
  by (auto simp: create_one_def succeeds_def Let_def request_failed_def denied_def
      split: http_result.splits)


lemma create_loop_batch:
  "n \<noteq> 1 \<Longrightarrow>
   \<exists>w'. create_loop net t sd n is b w =
     (Running,
      \<lparr>created_workers = created_workers b @
          map (\<lambda>i. (worker_name (attempts net i), worker_url (worker_name (attempts net i)) sd))
            (successes net is),
       failed_count = failed_count b + length (failures net is)\<rparr>,
      w')
    \<and> load_endpoints w' =
        foldl (\<lambda>eps e. put_endpoint e eps) (load_endpoints w)
          (map (\<lambda>i. new_endpoint t sd (attempts net i)) (successes net is))"
proof (induction "is" arbitrary: b w)
  case Nil
  then show ?case by (simp add: successes_def failures_def)
next
  case (Cons i "is")
  show ?case
  proof (cases "succeeds (attempts net i)")
    case True
    then show ?thesis
      using Cons.IH[OF Cons.prems,
          of "b\<lparr>created_workers := created_workers b @
               [(worker_name (attempts net i), worker_url (worker_name (attempts net i)) sd)]\<rparr>"
             "save_endpoint (new_endpoint t sd (attempts net i))
               (sent (PostScriptSubdomain (worker_name (attempts net i)))
                 (sent (PutScript (worker_name (attempts net i))) w))"]
      by (auto simp: create_one_success load_save_endpoint successes_def failures_def)
  next
    case False
    then show ?thesis
      using Cons.IH[OF Cons.prems, of "b\<lparr>failed_count := failed_count b + 1\<rparr>"
          "sent (PutScript (worker_name (attempts net i))) w"] Cons.prems
      by (auto simp: create_one_failure successes_def failures_def)
  qed
qed



text \<open>
  The loop over a list of iterations is the loop over a first part of it, followed, unless
  the function has returned, by the loop over the rest: the state after the first \<open>j\<close>
  iterations is the state of the loop over \<open>[0..<j]\<close>.
\<close>

lemma create_loop_append:
  "create_loop net t sd n (xs @ ys) b w =
     (case create_loop net t sd n xs b w of
        (Returned r, b', w') \<Rightarrow> (Returned r, b', w')
      | (Running, b', w') \<Rightarrow> create_loop net t sd n ys b' w')"
  by (induction xs arbitrary: b w) (auto split: prod.splits flow.splits)

lemma name_new_endpoint [simp]: "name (new_endpoint t sd a) = worker_name a"
  by (simp add: new_endpoint_def)

lemma load_killed_in_save [simp]: "load_endpoints (killed_in_save w) = []"
  by (simp add: killed_in_save_def load_endpoints_def)






text \<open>
  C2. With verified credentials, a URL, a workers subdomain and more than one proxy asked
  for, \<open>create\<close> runs every iteration whatever fails: its list of created workers is that
  of the attempts that succeeded, in the order of the attempts, its failure count is the
  number of the others, the two add up to the number asked for, and it returns true when at
  least one attempt succeeded. The cache then holds what it held before followed by the
  endpoints of the successful attempts in that order (the worker names drawn being
  distinct and new to the cache).
\<close>

theorem create_batch_continues:
  assumes "truthy (api_token self)" "truthy (account_id self)"
    and "verify_response net = Status 200"
    and "truthy (arg_url self)" "truthy (subdomain_result net)"
    and "1 < num_proxies (number self)"
  shows "\<exists>w'. create self net w =
           (successes net [0..<num_proxies (number self)] \<noteq> [],
            \<lparr>created_workers =
               map (\<lambda>i. (worker_name (attempts net i),
                          worker_url (worker_name (attempts net i)) (the (subdomain_result net))))
                 (successes net [0..<num_proxies (number self)]),
             failed_count = length (failures net [0..<num_proxies (number self)])\<rparr>,
            w')
         \<and> length (successes net [0..<num_proxies (number self)])
             + length (failures net [0..<num_proxies (number self)]) = num_proxies (number self)
         \<and> (distinct (map (\<lambda>i. worker_name (attempts net i))
                (successes net [0..<num_proxies (number self)]))
              \<and> (\<lambda>i. worker_name (attempts net i)) ` set (successes net [0..<num_proxies (number self)])
                   \<inter> name ` set (load_endpoints w) = {}
              \<longrightarrow> load_endpoints w' =
                    load_endpoints w @
                    map (\<lambda>i. new_endpoint (normalize_url (the (arg_url self)))
                               (the (subdomain_result net)) (attempts net i))
                      (successes net [0..<num_proxies (number self)]))"
proof -
  let ?n = "num_proxies (number self)"
  let ?t = "normalize_url (the (arg_url self))"
  let ?sd = "the (subdomain_result net)"
  let ?w2 = "sent EnsureSubdomain (sent GetAccount w)"
  have n1: "?n \<noteq> 1" using assms(6) by simp
  from create_loop_batch[OF n1, of net ?t ?sd "[0..<?n]" no_batch ?w2]
  obtain w' where loop: "create_loop net ?t ?sd ?n [0..<?n] no_batch ?w2 =
     (Running,
      \<lparr>created_workers =
          map (\<lambda>i. (worker_name (attempts net i), worker_url (worker_name (attempts net i)) ?sd))
            (successes net [0..<?n]),
       failed_count = length (failures net [0..<?n])\<rparr>, w')"
    and store: "load_endpoints w' =
        foldl (\<lambda>eps e. put_endpoint e eps) (load_endpoints w)
          (map (\<lambda>i. new_endpoint ?t ?sd (attempts net i)) (successes net [0..<?n]))"
    by (auto simp: no_batch_def)
  have res: "create self net w =
           (successes net [0..<?n] \<noteq> [],
            \<lparr>created_workers =
               map (\<lambda>i. (worker_name (attempts net i), worker_url (worker_name (attempts net i)) ?sd))
                 (successes net [0..<?n]),
             failed_count = length (failures net [0..<?n])\<rparr>, w')"
    using assms(1-5) by (simp add: create_def init_provider_ok Let_def loop)
  have cnt: "length (successes net [0..<?n]) + length (failures net [0..<?n]) = ?n"
    using sum_length_filter_compl[of "\<lambda>i. succeeds (attempts net i)" "[0..<?n]"]
    by (simp add: successes_def failures_def)
  have st: "distinct (map (\<lambda>i. worker_name (attempts net i)) (successes net [0..<?n]))
              \<and> (\<lambda>i. worker_name (attempts net i)) ` set (successes net [0..<?n])
                   \<inter> name ` set (load_endpoints w) = {}
              \<longrightarrow> load_endpoints w' =
                    load_endpoints w @
                    map (\<lambda>i. new_endpoint ?t ?sd (attempts net i)) (successes net [0..<?n])"
  proof
    assume a: "distinct (map (\<lambda>i. worker_name (attempts net i)) (successes net [0..<?n]))
              \<and> (\<lambda>i. worker_name (attempts net i)) ` set (successes net [0..<?n])
                   \<inter> name ` set (load_endpoints w) = {}"
    show "load_endpoints w' = load_endpoints w @
                    map (\<lambda>i. new_endpoint ?t ?sd (attempts net i)) (successes net [0..<?n])"
      unfolding store using a by (intro foldl_put_fresh) (auto simp: comp_def image_image)
  qed
  from res cnt st show ?thesis by blast
qed

lemma ex_succ: "successes example_network [0..<5] = [0, 2, 3, 4]"
  by (simp add: successes_def succeeds_def example_network_def example_attempt_def
      raises_for_status_def upt_rec)

lemma ex_fail: "failures example_network [0..<5] = [1]"
  by (simp add: failures_def succeeds_def example_network_def example_attempt_def
      raises_for_status_def upt_rec)

theorem create_batch_continues_witness:
  "fst (create example_provider example_network empty_world)
   \<and> map fst (created_workers (fst (snd (create example_provider example_network empty_world)))) =
       [''proxy-1700000000-aaaaaa'', ''api-1700000002-cccccc'',
        ''edge-1700000003-dddddd'', ''app-1700000004-eeeeee'']
   \<and> failed_count (fst (snd (create example_provider example_network empty_world))) = 1
   \<and> map name (load_endpoints (snd (snd (create example_provider example_network empty_world)))) =
       [''proxy-1700000000-aaaaaa'', ''api-1700000002-cccccc'',
        ''edge-1700000003-dddddd'', ''app-1700000004-eeeeee'']"
proof -
  have n: "num_proxies (number example_provider) = 5"
    by (simp add: example_provider_def num_proxies_def)
  have at: "attempts example_network = example_attempt" by (simp add: example_network_def)
  have h1: "truthy (api_token example_provider)" "truthy (account_id example_provider)"
    "truthy (arg_url example_provider)"
    by (simp_all add: example_provider_def truthy_def)
  have h2: "verify_response example_network = Status 200" "truthy (subdomain_result example_network)"
    by (simp_all add: example_network_def truthy_def)
  have h3: "1 < num_proxies (number example_provider)" by (simp add: n)
  have e: "load_endpoints empty_world = []" by (simp add: empty_world_def load_endpoints_def)
  from create_batch_continues [OF h1(1) h1(2) h2(1) h1(3) h2(2) h3, of empty_world]
  obtain w' where
    c: "create example_provider example_network empty_world =
          (successes example_network [0..<5] \<noteq> [],
           \<lparr>created_workers =
              map (\<lambda>i. (worker_name (attempts example_network i),
                         worker_url (worker_name (attempts example_network i))
                           (the (subdomain_result example_network))))
                (successes example_network [0..<5]),
            failed_count = length (failures example_network [0..<5])\<rparr>, w')"
    and s: "distinct (map (\<lambda>i. worker_name (attempts example_network i))
              (successes example_network [0..<5]))
            \<and> (\<lambda>i. worker_name (attempts example_network i)) ` set (successes example_network [0..<5])
                 \<inter> name ` set (load_endpoints empty_world) = {}
            \<longrightarrow> load_endpoints w' =
                  load_endpoints empty_world @
                  map (\<lambda>i. new_endpoint (normalize_url (the (arg_url example_provider)))
                             (the (subdomain_result example_network)) (attempts example_network i))
                    (successes example_network [0..<5])"
    unfolding n by blast
  have d: "distinct (map (\<lambda>i. worker_name (attempts example_network i))
              (successes example_network [0..<5]))"
    by (simp add: ex_succ at example_attempt_def example_names_def)
  from s d have "load_endpoints w' =
      map (\<lambda>i. new_endpoint (normalize_url (the (arg_url example_provider)))
                 (the (subdomain_result example_network)) (attempts example_network i))
        (successes example_network [0..<5])"
    by (simp add: e)
  then show ?thesis
    by (simp add: c ex_succ ex_fail at example_attempt_def example_names_def)
qed

section \<open>Listing the workers\<close>

lemma sync_endpoints_remote:
  assumes "truthy (subdomain_result net)"
    and "scripts_response net = ScriptsResponse s scripts" "\<not> raises_for_status s"
  shows "sync_endpoints net w =
     (Inr (map (remote_worker (the (subdomain_result net))) (filter owned scripts)),
      save_all_endpoints (map (remote_worker (the (subdomain_result net))) (filter owned scripts))
        (sent GetScripts (sent EnsureSubdomain w)))"
  using assms by (simp add: sync_endpoints_def Let_def)

lemma sync_endpoints_fallback:
  assumes "(\<not> truthy (subdomain_result net) \<and> subdomain_error net = None)
     \<or> (truthy (subdomain_result net) \<and> scripts_response net = ScriptsRequestException)
     \<or> (truthy (subdomain_result net) \<and> scripts_response net = ScriptsResponse s scripts
          \<and> raises_for_status s)"
  shows "\<exists>w'. sync_endpoints net w = (Inr (load_endpoints w), w')
            \<and> endpoints_file w' = endpoints_file w"
  using assms by (auto simp: sync_endpoints_def Let_def sent_def load_endpoints_def)

lemma name_remote_worker [simp]: "name (remote_worker sd sc) = script_name sc"
  by (simp add: remote_worker_def script_name_def)

text \<open>
  C4, as amended. With verified credentials, \<open>list\<close> returns true in two ways. When the
  subdomain is found and the API lists the scripts (no error status), the cache afterwards
  holds exactly the listed scripts whose name has one of the tool's prefixes, in the order
  of the listing, whatever the cache held before: an entry that the listing lacks is gone,
  a listed script that the cache lacked is there; the rows printed are those entries. When
  no subdomain is found, or the listing request raises a \<open>RequestException\<close> or is
  answered with an error status, the endpoints file is left as it was and the rows printed
  are what it holds.
\<close>

theorem list_syncs_or_keeps_the_cache:
  assumes "truthy (api_token self)" "truthy (account_id self)"
    and "verify_response net = Status 200"
  shows "(truthy (subdomain_result net) \<and> scripts_response net = ScriptsResponse s scripts
            \<and> \<not> raises_for_status s \<longrightarrow>
          fst (list_workers self net w)
          \<and> load_endpoints (snd (snd (list_workers self net w))) =
              map (remote_worker (the (subdomain_result net))) (filter owned scripts)
          \<and> fst (snd (list_workers self net w)) = load_endpoints (snd (snd (list_workers self net w)))
          \<and> map name (load_endpoints (snd (snd (list_workers self net w)))) =
              filter (\<lambda>n. startswith n omniprox_prefixes) (map script_name scripts))
       \<and> ((\<not> truthy (subdomain_result net) \<and> subdomain_error net = None)
            \<or> (truthy (subdomain_result net) \<and> scripts_response net = ScriptsRequestException)
            \<or> (truthy (subdomain_result net) \<and> scripts_response net = ScriptsResponse s scripts
                 \<and> raises_for_status s) \<longrightarrow>
          fst (list_workers self net w)
          \<and> endpoints_file (snd (snd (list_workers self net w))) = endpoints_file w
          \<and> fst (snd (list_workers self net w)) = load_endpoints w)"
proof -
  let ?remote = "map (remote_worker (the (subdomain_result net))) (filter owned scripts)"
  have i: "init_provider self net w = (True, sent GetAccount w)"
    using assms by (rule init_provider_ok)
  have n: "map name ?remote = filter (\<lambda>n. startswith n omniprox_prefixes) (map script_name scripts)"
    by (induction scripts) (auto simp: owned_def script_name_def)
  have a: "fst (list_workers self net w)
          \<and> load_endpoints (snd (snd (list_workers self net w))) = ?remote
          \<and> fst (snd (list_workers self net w)) = load_endpoints (snd (snd (list_workers self net w)))
          \<and> map name (load_endpoints (snd (snd (list_workers self net w)))) =
              filter (\<lambda>n. startswith n omniprox_prefixes) (map script_name scripts)"
    if "truthy (subdomain_result net)" "scripts_response net = ScriptsResponse s scripts"
      "\<not> raises_for_status s"
  proof -
    have "list_workers self net w =
      (True, ?remote, save_all_endpoints ?remote (sent GetScripts (sent EnsureSubdomain (sent GetAccount w))))"
      using that by (simp add: list_workers_def i sync_endpoints_remote)
    then show ?thesis using n by (simp del: map_map)
  qed
  have b: "fst (list_workers self net w)
          \<and> endpoints_file (snd (snd (list_workers self net w))) = endpoints_file w
          \<and> fst (snd (list_workers self net w)) = load_endpoints w"
    if "(\<not> truthy (subdomain_result net) \<and> subdomain_error net = None)
            \<or> (truthy (subdomain_result net) \<and> scripts_response net = ScriptsRequestException)
            \<or> (truthy (subdomain_result net) \<and> scripts_response net = ScriptsResponse s scripts
                 \<and> raises_for_status s)"
  proof -
    from sync_endpoints_fallback[OF that, of "sent GetAccount w"]
    obtain w' where "sync_endpoints net (sent GetAccount w) = (Inr (load_endpoints (sent GetAccount w)), w')"
      and "endpoints_file w' = endpoints_file (sent GetAccount w)" by blast
    then show ?thesis by (simp add: list_workers_def i)
  qed
  from a b show ?thesis by blast
qed

theorem list_syncs_or_keeps_the_cache_witness:
  "map name (load_endpoints example_world) = [''proxy-1700000000-aaaaaa'']
   \<and> fst (list_workers example_provider example_network example_world)
   \<and> map name (load_endpoints (snd (snd (list_workers example_provider example_network example_world))))
       = [''proxy-1700000000-aaaaaa'', ''worker-1700000001-bbbbbb'']
   \<and> fst (list_workers example_provider
             (example_network\<lparr>scripts_response := ScriptsResponse 200 (tl example_scripts)\<rparr>)
             example_world)
   \<and> map name (load_endpoints (snd (snd (list_workers example_provider
             (example_network\<lparr>scripts_response := ScriptsResponse 200 (tl example_scripts)\<rparr>)
             example_world))))
       = [''worker-1700000001-bbbbbb'']
   \<and> fst (list_workers example_provider
             (example_network\<lparr>scripts_response := ScriptsResponse 503 []\<rparr>) example_world)
   \<and> endpoints_file (snd (snd (list_workers example_provider
             (example_network\<lparr>scripts_response := ScriptsResponse 503 []\<rparr>) example_world)))
       = endpoints_file example_world"
proof -
  have h: "truthy (api_token example_provider)" "truthy (account_id example_provider)"
    by (simp_all add: example_provider_def truthy_def)
  have n: "verify_response example_network = Status 200" "truthy (subdomain_result example_network)"
    "scripts_response example_network = ScriptsResponse 200 example_scripts"
    by (simp_all add: example_network_def truthy_def)
  let ?net = "example_network\<lparr>scripts_response := ScriptsResponse 200 (tl example_scripts)\<rparr>"
  have m: "verify_response ?net = Status 200" "truthy (subdomain_result ?net)"
    "scripts_response ?net = ScriptsResponse 200 (tl example_scripts)"
    by (simp_all add: example_network_def truthy_def)
  let ?down = "example_network\<lparr>scripts_response := ScriptsResponse 503 []\<rparr>"
  have d: "verify_response ?down = Status 200" "truthy (subdomain_result ?down)"
    "scripts_response ?down = ScriptsResponse 503 []"
    by (simp_all add: example_network_def truthy_def)
  have r: "\<not> raises_for_status 200" "raises_for_status 503" by (simp_all add: raises_for_status_def)
  have s: "filter (\<lambda>n. startswith n omniprox_prefixes) (map script_name example_scripts) =
      [''proxy-1700000000-aaaaaa'', ''worker-1700000001-bbbbbb'']"
    "filter (\<lambda>n. startswith n omniprox_prefixes) (map script_name (tl example_scripts)) =
      [''worker-1700000001-bbbbbb'']"
    by (simp_all add: example_scripts_def script_name_def get_or_def startswith_def omniprox_prefixes_def)
  have l: "map name (load_endpoints example_world) = [''proxy-1700000000-aaaaaa'']"
    by (simp add: example_world_def load_endpoints_def example_endpoint_def)
  from list_syncs_or_keeps_the_cache [OF h n(1), of 200 example_scripts example_world] n(2) n(3) r(1)
  have a: "fst (list_workers example_provider example_network example_world)"
    "map name (load_endpoints (snd (snd (list_workers example_provider example_network example_world))))
       = filter (\<lambda>n. startswith n omniprox_prefixes) (map script_name example_scripts)"
    by blast+
  from list_syncs_or_keeps_the_cache [OF h m(1), of 200 "tl example_scripts" example_world] m(2) m(3) r(1)
  have b: "fst (list_workers example_provider ?net example_world)"
    "map name (load_endpoints (snd (snd (list_workers example_provider ?net example_world))))
       = filter (\<lambda>n. startswith n omniprox_prefixes) (map script_name (tl example_scripts))"
    by blast+
  from list_syncs_or_keeps_the_cache [OF h d(1), of 503 "[]" example_world] d(2) d(3) r(2)
  have c: "fst (list_workers example_provider ?down example_world)"
    "endpoints_file (snd (snd (list_workers example_provider ?down example_world)))
       = endpoints_file example_world"
    by blast+
  show ?thesis using l a b c unfolding s by blast
qed

text \<open>
  C4 as stated fails. The cache holds worker A and the account holds worker B only. The
  listing request raises a \<open>RequestException\<close>, or no subdomain is found and the listing
  is not even asked for: \<open>list\<close> returns true and the cache still holds A, where the
  listing, had it been answered, would have left B.
\<close>

theorem list_succeeds_on_the_stale_cache_counterexample:
  "map name (load_endpoints example_world) = [''proxy-1700000000-aaaaaa'']
   \<and> map name (load_endpoints (snd (snd (list_workers example_provider
        (example_network\<lparr>scripts_response := ScriptsResponse 200 (tl example_scripts)\<rparr>)
        example_world)))) = [''worker-1700000001-bbbbbb'']
   \<and> fst (list_workers example_provider
        (example_network\<lparr>scripts_response := ScriptsRequestException\<rparr>) example_world)
   \<and> map name (load_endpoints (snd (snd (list_workers example_provider
        (example_network\<lparr>scripts_response := ScriptsRequestException\<rparr>) example_world))))
       = [''proxy-1700000000-aaaaaa'']
   \<and> fst (list_workers example_provider
        (example_network\<lparr>subdomain_result := None,
           scripts_response := ScriptsResponse 200 (tl example_scripts)\<rparr>) example_world)
   \<and> map name (load_endpoints (snd (snd (list_workers example_provider
        (example_network\<lparr>subdomain_result := None,
           scripts_response := ScriptsResponse 200 (tl example_scripts)\<rparr>) example_world))))
       = [''proxy-1700000000-aaaaaa'']"
  by (simp add: list_workers_def init_provider_def sync_endpoints_def example_provider_def
      example_network_def example_world_def example_scripts_def truthy_def Let_def sent_def
      load_endpoints_def save_all_endpoints_def example_endpoint_def raises_for_status_def
      owned_def startswith_def omniprox_prefixes_def get_or_def remote_worker_def)

section \<open>The rotation test\<close>

lemma test_rotation_set:
  "test_rotation probe ps U = U \<union> set (ok_bodies probe ps)"
  by (induction probe ps U rule: test_rotation.induct)
     (auto simp: ok_bodies_def split: probe_result.splits)

lemma create_test_proxies_returns:
  assumes "\<And>i w e. fst (create_hook h i w) \<noteq> Inl e"
    and "\<And>i w e. fst (last_url_hook h i w) \<noteq> Inl e"
  shows "\<exists>created w'. create_test_proxies h is acc w = (Inr created, w')"
proof (induction "is" arbitrary: acc w)
  case Nil
  then show ?case by simp
next
  case (Cons i "is")
  obtain r w1 where c: "create_hook h i w = (Inr r, w1)"
    using assms(1)[of i w] by (cases "create_hook h i w"; cases "fst (create_hook h i w)") auto
  obtain u w2 where l: "last_url_hook h i w1 = (Inr u, w2)"
    using assms(2)[of i w1] by (cases "last_url_hook h i w1"; cases "fst (last_url_hook h i w1)") auto
  show ?case using Cons.IH by (simp add: c l)
qed

lemma offer_cleanup_quiet:
  assumes "\<And>w e. fst (cleanup_hook h w) = Inl e \<Longrightarrow> e = EOFError"
  shows "\<exists>w'. offer_cleanup h w = (None, w')"
proof (cases "input_line w")
  case (Pair r w1)
  show ?thesis
  proof (cases r)
    case (Inl e)
    then have "e = EOFError" using Pair by (auto simp: input_line_def split: list.splits)
    then show ?thesis using Pair Inl by (simp add: offer_cleanup_def)
  next
    case (Inr answer)
    show ?thesis
    proof (cases "cleanup_hook h w1")
      case (Pair c w2)
      then show ?thesis
        using assms[of w1] \<open>input_line w = (r, w1)\<close> Inr
        by (cases c) (auto simp: offer_cleanup_def)
    qed
  qed
qed

lemma proxytest_report:
  assumes "\<forall>i w e. fst (create_hook h i w) \<noteq> Inl e"
    and "\<forall>i w e. fst (last_url_hook h i w) \<noteq> Inl e"
    and "\<forall>w e. fst (cleanup_hook h w) = Inl e \<longrightarrow> e = EOFError"
  shows "\<exists>created rep w'.
           fst (create_test_proxies h [0..<3] [] w) = Inr created
         \<and> proxytest h probe w = (card (set (ok_bodies probe (enumerate_list created))) > 0, Some rep, w')
         \<and> proxies_created rep = length created
         \<and> unique_ips_detected rep = card (set (ok_bodies probe (enumerate_list created)))
         \<and> verdict rep = classify (unique_ips_detected rep)"
proof -
  obtain created w1 where c: "create_test_proxies h [0..<3] [] w = (Inr created, w1)"
    using create_test_proxies_returns[of h "[0..<3]" "[]" w] assms(1,2) by blast
  obtain w2 where o: "offer_cleanup h w1 = (None, w2)"
    using offer_cleanup_quiet[of h w1] assms(3) by blast
  show ?thesis
    by (rule exI[of _ created])
       (simp add: proxytest_def c o Let_def test_rotation_set results_summary_def classify_def)
qed

text \<open>
  C5. When the provider's creation and lookup methods raise nothing and its \<open>cleanup\<close>
  raises at most \<open>EOFError\<close>, \<open>proxytest\<close> reaches its summary, and for the proxies it
  created: the number of unique IPs it reports is the number of distinct identifiers among
  the responses of status 200; the verdict is rotation working above one, no rotation at
  exactly one, no successful responses at zero; and it returns true exactly when that
  number is above zero.
\<close>

theorem proxytest_classifies:
  assumes "\<forall>i w e. fst (create_hook h i w) \<noteq> Inl e"
    and "\<forall>i w e. fst (last_url_hook h i w) \<noteq> Inl e"
    and "\<forall>w e. fst (cleanup_hook h w) = Inl e \<longrightarrow> e = EOFError"
  shows "\<exists>created rep w'.
           fst (create_test_proxies h [0..<3] [] w) = Inr created
         \<and> proxytest h probe w = (card (set (ok_bodies probe (enumerate_list created))) > 0, Some rep, w')
         \<and> proxies_created rep = length created
         \<and> unique_ips_detected rep = card (set (ok_bodies probe (enumerate_list created)))
         \<and> verdict rep = classify (unique_ips_detected rep)"
  using assms by (rule proxytest_report)

lemma stub_created: "create_test_proxies stub_hooks [0..<3] [] w = (Inr stub_urls, w)"
  by (simp add: stub_hooks_def upt_rec truthy_def stub_urls_def)

lemma strip_ip [simp]: "strip ''1.2.3.4'' = ''1.2.3.4''" "strip ''5.6.7.8'' = ''5.6.7.8''"
  by (simp_all add: strip_def isspace_def)

lemma stub_bodies:
  "ok_bodies (stub_probe [a, b, c]) (enumerate_list stub_urls) = [strip a, strip b, strip c]"
  "ok_bodies (stub_probe []) (enumerate_list stub_urls) = []"
  by (simp_all add: ok_bodies_def stub_probe_def enumerate_list_def upt_rec stub_urls_def)

lemma stub_offer: "offer_cleanup stub_hooks empty_world = (None, empty_world)"
  by (simp add: offer_cleanup_def input_line_def empty_world_def)

lemma stub_run3:
  "\<exists>rep. proxytest stub_hooks (stub_probe [a, b, c]) empty_world =
     (card {strip a, strip b, strip c} > 0, Some rep, empty_world)
   \<and> unique_ips_detected rep = card {strip a, strip b, strip c}
   \<and> successful_responses rep = card {strip a, strip b, strip c}
   \<and> proxies_created rep = 3
   \<and> verdict rep = classify (card {strip a, strip b, strip c})"
proof -
  have c: "create_test_proxies stub_hooks [0..<3] [] empty_world = (Inr stub_urls, empty_world)"
    by (rule stub_created)
  show ?thesis
    by (simp add: proxytest_def c test_rotation_set stub_bodies stub_offer
      Let_def results_summary_def classify_def)
       (simp add: stub_urls_def)
qed

lemma stub_run0:
  "\<exists>rep. proxytest stub_hooks (stub_probe []) empty_world = (False, Some rep, empty_world)
   \<and> unique_ips_detected rep = 0 \<and> verdict rep = NoSuccessfulResponses"
proof -
  have c: "create_test_proxies stub_hooks [0..<3] [] empty_world = (Inr stub_urls, empty_world)"
    by (rule stub_created)
  show ?thesis
    by (simp add: proxytest_def c test_rotation_set stub_bodies stub_offer
      Let_def results_summary_def)
qed

theorem proxytest_classifies_witness:
  "fst (proxytest stub_hooks (stub_probe [''1.2.3.4'', ''1.2.3.4'', ''5.6.7.8'']) empty_world)
   \<and> map_option unique_ips_detected
        (fst (snd (proxytest stub_hooks (stub_probe [''1.2.3.4'', ''1.2.3.4'', ''5.6.7.8'']) empty_world)))
       = Some 2
   \<and> map_option verdict
        (fst (snd (proxytest stub_hooks (stub_probe [''1.2.3.4'', ''1.2.3.4'', ''5.6.7.8'']) empty_world)))
       = Some RotationWorking
   \<and> fst (proxytest stub_hooks (stub_probe [''1.2.3.4'', ''1.2.3.4'', ''1.2.3.4'']) empty_world)
   \<and> map_option verdict
        (fst (snd (proxytest stub_hooks (stub_probe [''1.2.3.4'', ''1.2.3.4'', ''1.2.3.4'']) empty_world)))
       = Some NoRotation
   \<and> \<not> fst (proxytest stub_hooks (stub_probe []) empty_world)
   \<and> map_option verdict (fst (snd (proxytest stub_hooks (stub_probe []) empty_world)))
       = Some NoSuccessfulResponses"
proof -
  have h1: "\<forall>i w e. fst (create_hook stub_hooks i w) \<noteq> Inl e"
    and h2: "\<forall>i w e. fst (last_url_hook stub_hooks i w) \<noteq> Inl e"
    and h3: "\<forall>w e. fst (cleanup_hook stub_hooks w) = Inl e \<longrightarrow> e = EOFError"
    by (simp_all add: stub_hooks_def)
  have v: "verdict rep = classify (unique_ips_detected rep) \<and> r = (unique_ips_detected rep > 0)"
    if "proxytest stub_hooks probe empty_world = (r, Some rep, w')" for probe r rep w'
    using proxytest_classifies [OF h1 h2 h3, where probe = probe and w = empty_world] that by auto
  obtain ra where a: "proxytest stub_hooks (stub_probe [''1.2.3.4'', ''1.2.3.4'', ''5.6.7.8'']) empty_world
      = (True, Some ra, empty_world)" and ua: "unique_ips_detected ra = 2"
    using stub_run3[of "''1.2.3.4''" "''1.2.3.4''" "''5.6.7.8''"] by auto
  obtain rb where b: "proxytest stub_hooks (stub_probe [''1.2.3.4'', ''1.2.3.4'', ''1.2.3.4'']) empty_world
      = (True, Some rb, empty_world)" and ub: "unique_ips_detected rb = 1"
    using stub_run3[of "''1.2.3.4''" "''1.2.3.4''" "''1.2.3.4''"] by auto
  obtain rc where c: "proxytest stub_hooks (stub_probe []) empty_world
      = (False, Some rc, empty_world)" and uc: "unique_ips_detected rc = 0"
    using stub_run0 by auto
  show ?thesis using v[OF a] v[OF b] v[OF c] by (simp add: a b c ua ub uc classify_def)
qed

text \<open>The methods of the Cloudflare provider meet the conditions of the last theorem.\<close>

lemma cleanup_raises_eof_only: "fst (cleanup self net w) = Inl e \<Longrightarrow> e = EOFError"
  by (auto simp: cleanup_def confirm_cleanup_def input_line_def
      split: prod.splits bool.splits sum.splits if_splits list.splits)

lemma fst_on_object: "fst (on_object method net w) = fst (method (cached w net) w)"
  by (simp add: on_object_def split: prod.splits)

lemma cloudflare_hooks_quiet:
  "\<forall>i w e. fst (create_hook (cloudflare_hooks self nets) i w) \<noteq> Inl e"
  "\<forall>i w e. fst (last_url_hook (cloudflare_hooks self nets) i w) \<noteq> Inl e"
  "\<forall>w e. fst (cleanup_hook (cloudflare_hooks self nets) w) = Inl e \<longrightarrow> e = EOFError"
  by (auto simp: cloudflare_hooks_def fst_on_object cleanup_raises_eof_only split: prod.splits)

lemma cloudflare_proxytest_classifies:
  "\<exists>created rep w'.
     fst (create_test_proxies (cloudflare_hooks self nets) [0..<3] [] w) = Inr created
     \<and> proxytest (cloudflare_hooks self nets) probe w =
       (card (set (ok_bodies probe (enumerate_list created))) > 0, Some rep, w')
     \<and> proxies_created rep = length created
     \<and> unique_ips_detected rep = card (set (ok_bodies probe (enumerate_list created)))
     \<and> verdict rep = classify (unique_ips_detected rep)"
  by (rule proxytest_report [OF cloudflare_hooks_quiet])

lemma report_counts_equal:
  "proxytest h probe w = (r, Some rep, w') \<Longrightarrow> successful_responses rep = unique_ips_detected rep"
  by (auto simp: proxytest_def results_summary_def Let_def split: prod.splits sum.splits option.splits)

text \<open>
  C6 fails on the code: the number printed as successful responses is the size of the set
  of identifiers, the same number as the unique IPs. Three probes answer 200 with the same
  identifier; three responses were successful, and the report gives 1 for both numbers.
\<close>

theorem successful_responses_is_unique_count:
  "fst (create_test_proxies stub_hooks [0..<3] [] empty_world) = Inr stub_urls
   \<and> ok_bodies (stub_probe [''1.2.3.4'', ''1.2.3.4'', ''1.2.3.4'']) (enumerate_list stub_urls)
       = [''1.2.3.4'', ''1.2.3.4'', ''1.2.3.4'']
   \<and> map_option successful_responses
        (fst (snd (proxytest stub_hooks (stub_probe [''1.2.3.4'', ''1.2.3.4'', ''1.2.3.4'']) empty_world)))
       = Some 1
   \<and> map_option unique_ips_detected
        (fst (snd (proxytest stub_hooks (stub_probe [''1.2.3.4'', ''1.2.3.4'', ''1.2.3.4'']) empty_world)))
       = Some 1"
  using stub_run3[of "''1.2.3.4''" "''1.2.3.4''" "''1.2.3.4''"]
  by (auto simp: stub_bodies stub_created)

section \<open>Saving a store\<close>












section \<open>Dispatching a command\<close>

lemma command_lookup:
  "command_map self c =
     (if c = ''proxytest'' then Some (proxytest_method self)
      else if c = ''cleanup'' then Some (cleanup_method self)
      else if c = ''usage'' then Some (usage_method self)
      else if c = ''status'' then Some (status_method self)
      else if c = ''update'' then Some (update_method self)
      else if c = ''delete'' then Some (delete_method self)
      else if c = ''list'' then Some (list_method self)
      else if c = ''create'' then Some (create_method self)
      else None)"
  unfolding command_map_def by (simp only: fun_upd_apply)

lemma execute_some:
  "execute self (Some c) w = (case command_map self c of None \<Rightarrow> (Inr False, w) | Some f \<Rightarrow> f w)"
  by (auto simp: execute_def split: option.splits prod.splits sum.splits)

lemma status_example:
  "status example_provider example_network empty_world =
     (Inl AttributeError, sent GetAccount (sent GetAccount empty_world))"
  by (simp add: status_def init_provider_def example_provider_def example_network_def
      truthy_def dict_get_def get_or_def Let_def)

text \<open>
  C8, as amended. \<open>execute\<close> converts nothing: it returns what the command returns and
  raises what the command raises, and answers false for a command it does not know. It is
  \<open>main\<close> that stops an exception: its exit status is 1 for every exception and for
  false, and 0 for true only.
\<close>

theorem execute_raises_again:
  "(command_map self c = Some method \<longrightarrow> execute self (Some c) w = method w)
   \<and> (command_map self c = None \<longrightarrow> execute self (Some c) w = (Inr False, w))
   \<and> execute self None w = (Inr False, w)
   \<and> main_exit (Inl e) = 1
   \<and> (main_exit r = 0 \<longleftrightarrow> r = Inr True)"
proof -
  have a: "command_map self c = Some method \<longrightarrow> execute self (Some c) w = method w"
    by (simp add: execute_some)
  have b: "command_map self c = None \<longrightarrow> execute self (Some c) w = (Inr False, w)"
    by (simp add: execute_some)
  have n: "execute self None w = (Inr False, w)" by (simp add: execute_def)
  have m: "main_exit (Inl e) = 1" "main_exit r = 0 \<longleftrightarrow> r = Inr True"
    by (auto simp: main_exit_def split: sum.splits)
  from a b n m show ?thesis by blast
qed

text \<open>
  C8 as stated fails: the account request of \<open>status\<close> is answered 200 with a body whose
  \<open>result\<close> is null; \<open>status\<close> raises \<open>AttributeError\<close>, and \<open>execute\<close> raises it again,
  whatever the other methods of the object are.
\<close>

theorem execute_propagates_counterexample:
  "\<forall>self. fst (execute (self\<lparr>status_method := status example_provider example_network\<rparr>)
          (Some ''status'') empty_world) = Inl AttributeError"
  by (simp add: execute_some command_lookup status_example)

theorem execute_raises_again_witness:
  "execute (stub_methods\<lparr>status_method := status example_provider example_network\<rparr>)
      (Some ''status'') empty_world
     = status example_provider example_network empty_world
   \<and> execute (stub_methods\<lparr>status_method := status example_provider example_network\<rparr>)
      (Some ''rotate'') empty_world = (Inr False, empty_world)
   \<and> main_exit (fst (execute (stub_methods\<lparr>status_method := status example_provider example_network\<rparr>)
        (Some ''status'') empty_world)) = 1"
proof -
  let ?m = "stub_methods\<lparr>status_method := status example_provider example_network\<rparr>"
  have s: "command_map ?m ''status'' = Some (status example_provider example_network)"
    by (simp add: command_lookup)
  have r: "command_map ?m ''rotate'' = None" by (simp add: command_lookup)
  from execute_raises_again [of ?m "''status''" "status example_provider example_network" empty_world
         AttributeError "Inl AttributeError"]
       execute_raises_again [of ?m "''rotate''" "status example_provider example_network" empty_world
         AttributeError "Inl AttributeError"]
       s r
  show ?thesis by (simp add: status_example)
qed

section \<open>Checks on the arguments\<close>

lemma init_provider_calls:
  "init_provider self net w = (r, w') \<Longrightarrow>
   endpoints_file w' = endpoints_file w \<and> (calls w' = calls w \<or> calls w' = calls w @ [GetAccount])"
  by (auto simp: init_provider_def sent_def split: if_splits http_result.splits)

lemma create_without_url:
  assumes "\<not> truthy (arg_url self)"
  shows "fst (create self net w) = False
       \<and> endpoints_file (snd (snd (create self net w))) = endpoints_file w
       \<and> (calls (snd (snd (create self net w))) = calls w
            \<or> calls (snd (snd (create self net w))) = calls w @ [GetAccount])"
proof (cases "init_provider self net w")
  case (Pair r w1)
  from init_provider_calls[OF Pair] show ?thesis
    using assms Pair by (cases r) (auto simp: create_def)
qed

lemma delete_without_api_id:
  assumes "\<not> truthy (api_id self)"
  shows "fst (delete self net w) = False
       \<and> endpoints_file (snd (delete self net w)) = endpoints_file w
       \<and> (calls (snd (delete self net w)) = calls w
            \<or> calls (snd (delete self net w)) = calls w @ [GetAccount])"
proof (cases "init_provider self net w")
  case (Pair r w1)
  from init_provider_calls[OF Pair] show ?thesis
    using assms Pair by (cases r) (auto simp: delete_def)
qed

lemma num_proxies_range:
  "1 \<le> num_proxies k \<and> num_proxies k \<le> 10
   \<and> (k < 1 \<longrightarrow> num_proxies k = 1) \<and> (10 < k \<longrightarrow> num_proxies k = 10)
   \<and> (1 \<le> k \<and> k \<le> 10 \<longrightarrow> int (num_proxies k) = k)"
  by (auto simp: num_proxies_def)

lemma num_proxies_idem: "num_proxies (int (num_proxies k)) = num_proxies k"
  by (auto simp: num_proxies_def)

lemma init_provider_number [simp]:
  "init_provider (self\<lparr>number := k\<rparr>) net w = init_provider self net w"
  by (simp add: init_provider_def)

lemma create_clamped:
  "create self net w = create (self\<lparr>number := int (num_proxies (number self))\<rparr>) net w"
  by (auto simp: create_def num_proxies_idem Let_def split: prod.splits bool.splits)

lemma calls_save_endpoint [simp]: "calls (save_endpoint e w) = calls w"
  by (simp add: save_endpoint_def save_all_endpoints_def split: prod.splits)

lemma create_one_calls:
  "\<exists>cs. calls (snd (snd (create_one net t sd n i b w))) =
     calls w @ PutScript (worker_name (attempts net i)) # cs"
  by (auto simp: create_one_def Let_def request_failed_def denied_def sent_def
      split: http_result.splits)

lemma create_loop_calls:
  "\<exists>cs. calls (snd (snd (create_loop net t sd n is b w))) = calls w @ cs"
proof (induction "is" arbitrary: b w)
  case Nil
  then show ?case by simp
next
  case (Cons i "is")
  obtain f b1 w1 where o: "create_one net t sd n i b w = (f, b1, w1)"
    by (cases "create_one net t sd n i b w") auto
  from create_one_calls[of net t sd n i b w] o
  obtain cs where c: "calls w1 = calls w @ PutScript (worker_name (attempts net i)) # cs" by auto
  show ?case
  proof (cases f)
    case Running
    from Cons.IH[of b1 w1] obtain ds where
      "calls (snd (snd (create_loop net t sd n is b1 w1))) = calls w1 @ ds" by blast
    then show ?thesis using o Running c by simp
  next
    case (Returned r)
    then show ?thesis using o c by simp
  qed
qed

lemma create_loop_first_call:
  "PutScript (worker_name (attempts net i)) \<in>
     set (calls (snd (snd (create_loop net t sd n (i # is) b w))))"
proof -
  obtain f b1 w1 where o: "create_one net t sd n i b w = (f, b1, w1)"
    by (cases "create_one net t sd n i b w") auto
  from create_one_calls[of net t sd n i b w] o
  obtain cs where c: "calls w1 = calls w @ PutScript (worker_name (attempts net i)) # cs" by auto
  show ?thesis
  proof (cases f)
    case Running
    from create_loop_calls[of net t sd n "is" b1 w1] obtain ds where
      "calls (snd (snd (create_loop net t sd n is b1 w1))) = calls w1 @ ds" by blast
    then show ?thesis using o Running c by simp
  next
    case (Returned r)
    then show ?thesis using o c by simp
  qed
qed

lemma create_sends_put:
  assumes "truthy (api_token self)" "truthy (account_id self)"
    and "verify_response net = Status 200"
    and "truthy (arg_url self)" "truthy (subdomain_result net)"
  shows "PutScript (worker_name (attempts net 0)) \<in> set (calls (snd (snd (create self net w))))"
proof -
  let ?n = "num_proxies (number self)"
  let ?loop = "create_loop net (normalize_url (the (arg_url self)))
      (the (subdomain_result net)) ?n [0..<?n] no_batch
      (sent EnsureSubdomain (sent GetAccount w))"
  have "0 < ?n" by (simp add: num_proxies_def)
  then have u: "[0..<?n] = 0 # [Suc 0..<?n]" by (simp add: upt_rec)
  have p: "PutScript (worker_name (attempts net 0)) \<in> set (calls (snd (snd ?loop)))"
    unfolding u by (rule create_loop_first_call)
  obtain f b1 w1 where l: "?loop = (f, b1, w1)"
    using prod_cases3 by blast
  have c: "create self net w =
      (case ?loop of (Returned r, b, w3) \<Rightarrow> (r, b, w3)
                   | (Running, b, w3) \<Rightarrow> (created_workers b \<noteq> [], b, w3))"
    using assms by (simp add: create_def init_provider_ok Let_def)
  show ?thesis using p unfolding c l by (cases f) simp_all
qed

text \<open>
  C9, as amended. A missing URL makes \<open>create\<close>, and a missing worker name makes
  \<open>delete\<close>, return false with the cache untouched and with no request sent but the
  account request of \<open>init_provider\<close>, which runs before the check. A number of proxies
  outside 1..10 is not refused: below 1 it counts as 1 and above 10 as 10, and \<open>create\<close>
  does what it does for that number. \<open>create\<close> does not look at the form of a URL: with
  verified credentials and a subdomain, any URL that is not empty leads to the upload of
  the first worker.
\<close>

theorem validation_follows_the_credential_check:
  "(\<not> truthy (arg_url self) \<longrightarrow>
      fst (create self net w) = False
      \<and> endpoints_file (snd (snd (create self net w))) = endpoints_file w
      \<and> (calls (snd (snd (create self net w))) = calls w
           \<or> calls (snd (snd (create self net w))) = calls w @ [GetAccount]))
   \<and> (\<not> truthy (api_id self) \<longrightarrow>
      fst (delete self net w) = False
      \<and> endpoints_file (snd (delete self net w)) = endpoints_file w
      \<and> (calls (snd (delete self net w)) = calls w
           \<or> calls (snd (delete self net w)) = calls w @ [GetAccount]))
   \<and> 1 \<le> num_proxies k \<and> num_proxies k \<le> 10
   \<and> (k < 1 \<longrightarrow> num_proxies k = 1) \<and> (10 < k \<longrightarrow> num_proxies k = 10)
   \<and> (1 \<le> k \<and> k \<le> 10 \<longrightarrow> int (num_proxies k) = k)
   \<and> create self net w = create (self\<lparr>number := int (num_proxies (number self))\<rparr>) net w
   \<and> (truthy (api_token self) \<and> truthy (account_id self) \<and> verify_response net = Status 200
        \<and> truthy (arg_url self) \<and> truthy (subdomain_result net) \<longrightarrow>
        PutScript (worker_name (attempts net 0)) \<in> set (calls (snd (snd (create self net w)))))"
  using create_without_url[of self net w] delete_without_api_id[of self net w]
    num_proxies_range[of k] create_clamped[of self net w] create_sends_put[of self net w]
  by blast

lemma create_single_success:
  assumes "truthy (api_token self)" "truthy (account_id self)"
    and "verify_response net = Status 200"
    and "truthy (arg_url self)" "truthy (subdomain_result net)"
    and "num_proxies (number self) = 1" "succeeds (attempts net 0)"
  shows "create self net w =
     (True,
      \<lparr>created_workers =
         [(worker_name (attempts net 0),
           worker_url (worker_name (attempts net 0)) (the (subdomain_result net)))],
       failed_count = 0\<rparr>,
      save_endpoint
        (new_endpoint (normalize_url (the (arg_url self))) (the (subdomain_result net)) (attempts net 0))
        (sent (PostScriptSubdomain (worker_name (attempts net 0)))
          (sent (PutScript (worker_name (attempts net 0)))
            (sent EnsureSubdomain (sent GetAccount w)))))"
  using assms
  by (simp add: create_def init_provider_ok Let_def create_one_success no_batch_def)

lemma example_facts:
  "truthy (api_token (example_provider\<lparr>number := k\<rparr>))"
  "truthy (account_id (example_provider\<lparr>number := k\<rparr>))"
  "truthy (arg_url (example_provider\<lparr>number := k\<rparr>))"
  "truthy (api_token (example_provider\<lparr>arg_url := u\<rparr>))"
  "truthy (account_id (example_provider\<lparr>arg_url := u\<rparr>))"
  "verify_response example_network = Status 200"
  "truthy (subdomain_result example_network)"
  "succeeds (attempts example_network 0)"
  by (simp_all add: example_provider_def example_network_def truthy_def succeeds_def
      example_attempt_def raises_for_status_def)

text \<open>
  C9 as stated fails: with 0 proxies asked for, \<open>create\<close> returns true and the cache holds
  one new worker; with the URL \<open>not a url\<close> it returns true as well; and with no URL at
  all the account request has been sent by the time it returns.
\<close>

theorem count_is_clamped_counterexample:
  "fst (create (example_provider\<lparr>number := 0\<rparr>) example_network empty_world)
   \<and> map name (load_endpoints
         (snd (snd (create (example_provider\<lparr>number := 0\<rparr>) example_network empty_world))))
       = [''proxy-1700000000-aaaaaa'']
   \<and> fst (create (example_provider\<lparr>arg_url := Some ''not a url'', number := 1\<rparr>)
            example_network empty_world)
   \<and> calls (snd (snd (create (example_provider\<lparr>arg_url := None\<rparr>) example_network empty_world)))
       = [GetAccount]"
proof -
  have a: "create (example_provider\<lparr>number := 0\<rparr>) example_network empty_world =
     (True,
      \<lparr>created_workers =
         [(worker_name (attempts example_network 0),
           worker_url (worker_name (attempts example_network 0)) (the (subdomain_result example_network)))],
       failed_count = 0\<rparr>,
      save_endpoint
        (new_endpoint (normalize_url (the (arg_url (example_provider\<lparr>number := 0\<rparr>))))
           (the (subdomain_result example_network)) (attempts example_network 0))
        (sent (PostScriptSubdomain (worker_name (attempts example_network 0)))
          (sent (PutScript (worker_name (attempts example_network 0)))
            (sent EnsureSubdomain (sent GetAccount empty_world)))))"
    using example_facts(1-3)[of 0] example_facts(6-8)
    by (intro create_single_success) (simp_all add: num_proxies_def example_provider_def)
  have b: "fst (create (example_provider\<lparr>arg_url := Some ''not a url'', number := 1\<rparr>)
            example_network empty_world)"
    using example_facts(6-8)
    by (subst create_single_success)
       (simp_all add: num_proxies_def, simp_all add: example_provider_def truthy_def)
  have c: "calls (snd (snd (create (example_provider\<lparr>arg_url := None\<rparr>) example_network empty_world)))
       = [GetAccount]"
  proof -
    have "init_provider (example_provider\<lparr>arg_url := None\<rparr>) example_network empty_world =
        (True, sent GetAccount empty_world)"
      by (rule init_provider_ok) (simp_all add: example_provider_def example_network_def truthy_def)
    then show ?thesis by (simp add: create_def truthy_def sent_def empty_world_def)
  qed
  have n: "worker_name (attempts example_network 0) = ''proxy-1700000000-aaaaaa''"
    by (simp add: example_network_def example_attempt_def example_names_def)
  have e: "load_endpoints empty_world = []" by (simp add: empty_world_def load_endpoints_def)
  show ?thesis
    by (simp add: a b c load_save_endpoint put_endpoint_def e n)
qed

theorem validation_follows_the_credential_check_witness:
  "\<not> fst (create (example_provider\<lparr>arg_url := None\<rparr>) example_network empty_world)
   \<and> endpoints_file (snd (snd (create (example_provider\<lparr>arg_url := None\<rparr>) example_network empty_world)))
       = Absent
   \<and> \<not> fst (delete (example_provider\<lparr>api_id := None\<rparr>) example_network example_world)
   \<and> endpoints_file (snd (delete (example_provider\<lparr>api_id := None\<rparr>) example_network example_world))
       = endpoints_file example_world
   \<and> num_proxies 0 = 1 \<and> num_proxies 50 = 10 \<and> int (num_proxies 5) = 5
   \<and> PutScript ''proxy-1700000000-aaaaaa''
        \<in> set (calls (snd (snd (create example_provider example_network empty_world))))"
proof -
  have u: "\<not> truthy (arg_url (example_provider\<lparr>arg_url := None\<rparr>))"
    "\<not> truthy (api_id (example_provider\<lparr>api_id := None\<rparr>))"
    by (simp_all add: truthy_def)
  have t: "truthy (api_token example_provider) \<and> truthy (account_id example_provider)
     \<and> verify_response example_network = Status 200
     \<and> truthy (arg_url example_provider) \<and> truthy (subdomain_result example_network)"
    by (simp add: example_provider_def example_network_def truthy_def)
  have n: "worker_name (attempts example_network 0) = ''proxy-1700000000-aaaaaa''"
    by (simp add: example_network_def example_attempt_def example_names_def)
  have e: "endpoints_file empty_world = Absent" by (simp add: empty_world_def)
  note t1 = validation_follows_the_credential_check
         [where self = "example_provider\<lparr>arg_url := None\<rparr>" and net = example_network
            and w = empty_world and k = 0]
  note t2 = validation_follows_the_credential_check
         [where self = "example_provider\<lparr>api_id := None\<rparr>" and net = example_network
            and w = example_world and k = 50]
  note t3 = validation_follows_the_credential_check
         [where self = example_provider and net = example_network and w = empty_world and k = 5]
  from t1 u(1) have c1: "\<not> fst (create (example_provider\<lparr>arg_url := None\<rparr>) example_network empty_world)"
    "endpoints_file (snd (snd (create (example_provider\<lparr>arg_url := None\<rparr>) example_network empty_world)))
       = endpoints_file empty_world"
    by blast+
  from t2 u(2) have c2: "\<not> fst (delete (example_provider\<lparr>api_id := None\<rparr>) example_network example_world)"
    "endpoints_file (snd (delete (example_provider\<lparr>api_id := None\<rparr>) example_network example_world))
       = endpoints_file example_world"
    by blast+
  from t1 have k1: "(0::int) < 1 \<longrightarrow> num_proxies 0 = 1" by blast
  from t2 have k2: "(10::int) < 50 \<longrightarrow> num_proxies 50 = 10" by blast
  from t3 have k3: "(1::int) \<le> 5 \<and> (5::int) \<le> 10 \<longrightarrow> int (num_proxies 5) = 5" by blast
  from t3 t have p: "PutScript (worker_name (attempts example_network 0))
        \<in> set (calls (snd (snd (create example_provider example_network empty_world))))"
    by blast
  show ?thesis using c1 c2 k1 k2 k3 p unfolding n e by simp
qed

section \<open>Loading the provider modules\<close>

lemma import_gcp: "import_module Gcp = Inl (ImportError ''confirm_action'')"
  by (simp add: import_module_def utils_names_def)

lemma import_azure: "import_module Azure = Inl (ImportError ''confirm_action'')"
  by (simp add: import_module_def utils_names_def)

lemma import_others: "import_module Cloudflare = Inr Cloudflare" "import_module Alibaba = Inr Alibaba"
  by (simp_all add: import_module_def utils_names_def)

text \<open>
  C10. Loading the GCP module or the Azure module raises \<open>ImportError\<close> for
  \<open>confirm_action\<close>, which core/utils.py does not bind. So for the providers \<open>gcp\<close>,
  \<open>azure\<close> and \<open>az\<close>, \<open>get_provider_class\<close> raises that error when the SDK is found and
  returns no class when it is not: it never returns the provider class, and no method of
  the provider runs.
\<close>

theorem azure_and_gcp_never_load:
  assumes "p = ''gcp'' \<or> p = ''azure'' \<or> p = ''az''"
  shows "import_module Gcp = Inl (ImportError ''confirm_action'')
       \<and> import_module Azure = Inl (ImportError ''confirm_action'')
       \<and> get_provider_class sdk (provider_alias p) =
           (if check_provider_availability sdk (provider_alias p)
            then Inl (ImportError ''confirm_action'') else Inr None)
       \<and> (\<forall>m. get_provider_class sdk (provider_alias p) \<noteq> Inr (Some m))"
  using assms
  by (auto simp: get_provider_class_def provider_alias_def import_gcp import_azure)

theorem azure_and_gcp_never_load_witness:
  "get_provider_class (\<lambda>m. True) (provider_alias ''az'') = Inl (ImportError ''confirm_action'')
   \<and> get_provider_class (\<lambda>m. False) (provider_alias ''gcp'') = Inr None
   \<and> get_provider_class (\<lambda>m. True) (provider_alias ''cf'') = Inr (Some Cloudflare)"
proof -
  have a: "check_provider_availability (\<lambda>m. True) (provider_alias ''az'')"
    "\<not> check_provider_availability (\<lambda>m. False) (provider_alias ''gcp'')"
    "check_provider_availability (\<lambda>m. True) (provider_alias ''cf'')"
    by (simp_all add: check_provider_availability_def provider_alias_def availability_def
        lower_def lower_char_def)
  have c: "get_provider_class (\<lambda>m. True) (provider_alias ''cf'') = Inr (Some Cloudflare)"
    using a(3) by (simp add: get_provider_class_def provider_alias_def import_others)
  from azure_and_gcp_never_load [of "''az''" "\<lambda>m. True"]
       azure_and_gcp_never_load [of "''gcp''" "\<lambda>m. False"] a c
  show ?thesis by simp
qed

end
